theory Spec2Isabelle
  imports Complex_Main
begin

section \<open>Numbers as numpy computes with them\<close>

text \<open>
  Every quantity of the notebook is a float64 (a Python float, a \<^verbatim>\<open>np.float64\<close> or the
  value of an astropy \<^verbatim>\<open>Quantity\<close>). numpy does not raise on a square root of a
  negative number, on an arccos outside [-1, 1] or on a division by zero: it returns
  \<^verbatim>\<open>nan\<close> or \<^verbatim>\<open>inf\<close> (and prints a RuntimeWarning). A value of the model is the real
  number that a finite float64 stands for, or one of the three special values; every
  operation rounds, overflows and underflows. The sign of zero is not modelled (a
  division by zero divides by +0), and physical units are not modelled: a quantity is
  its value in one fixed unit system.
\<close>

datatype npfloat = Num real | PInf | NInf | NaN

fun isfinite :: "npfloat \<Rightarrow> bool" where
  "isfinite (Num x) = True"
| "isfinite PInf = False"
| "isfinite NInf = False"
| "isfinite NaN = False"

text \<open>Python's \<^verbatim>\<open>x < y\<close> and \<^verbatim>\<open>x <= y\<close> on floats: false as soon as one side is nan.\<close>

fun flt :: "npfloat \<Rightarrow> npfloat \<Rightarrow> bool" where
  "flt (Num x) (Num y) = (x < y)"
| "flt NaN _ = False"
| "flt _ NaN = False"
| "flt PInf _ = False"
| "flt _ PInf = True"
| "flt _ NInf = False"
| "flt NInf _ = True"

fun fle :: "npfloat \<Rightarrow> npfloat \<Rightarrow> bool" where
  "fle (Num x) (Num y) = (x \<le> y)"
| "fle NaN _ = False"
| "fle _ NaN = False"
| "fle _ PInf = True"
| "fle PInf _ = False"
| "fle NInf _ = True"
| "fle _ NInf = False"

subsection \<open>Rounding\<close>

text \<open>
  The float64 numbers are the reals \<open>m * 2\<^sup>e\<close> with \<open>\<bar>m\<bar> < 2\<^sup>5\<^sup>3\<close> and
  \<open>-1074 \<le> e \<le> 971\<close> (subnormal numbers included).
\<close>

definition representable :: "real \<Rightarrow> bool" where
  "representable r \<longleftrightarrow>
     (\<exists>e \<in> {- 1074 .. 971 :: int}. \<exists>m \<in> {- (2 ^ 53 - 1) .. 2 ^ 53 - 1 :: int}.
        r = of_int m * 2 powi e)"

text \<open>
  What the source does not fix is how the platform rounds: the rounding of an inexact
  result of \<^verbatim>\<open>+ - * /\<close> and \<^verbatim>\<open>sqrt\<close>, and the values that the mathematical library
  returns for \<^verbatim>\<open>sin\<close>, \<^verbatim>\<open>cos\<close>, \<^verbatim>\<open>arccos\<close> and \<^verbatim>\<open>pow\<close>. They are the fields of
  a parameter of every operation; a theorem that holds for every such parameter holds
  for float64.
\<close>

record fparith =
  rnd :: "real \<Rightarrow> npfloat"
  fsin :: "real \<Rightarrow> real"
  fcos :: "real \<Rightarrow> real"
  farccos :: "real \<Rightarrow> real"
  fpowr :: "real \<Rightarrow> real \<Rightarrow> npfloat"

text \<open>
  The float64 result of an operation whose exact result is the real \<open>r\<close>. IEEE 754
  fixes it in four cases: an exact zero stays zero, a result of magnitude at least
  \<open>2\<^sup>1\<^sup>0\<^sup>2\<^sup>4\<close> overflows to an infinity, a result of magnitude at most \<open>2\<^sup>-\<^sup>1\<^sup>0\<^sup>7\<^sup>5\<close>
  (half of the smallest positive float64) underflows to zero, and a result that is a
  float64 is returned as it is. Every other result is rounded by the platform.
\<close>

definition fl :: "fparith \<Rightarrow> real \<Rightarrow> npfloat" where
  "fl A r =
     (if r = 0 then Num 0
      else if 2 ^ 1024 \<le> \<bar>r\<bar> then (if 0 < r then PInf else NInf)
      else if \<bar>r\<bar> \<le> 1 / 2 ^ 1075 then Num 0
      else if representable r then Num r
      else rnd A r)"

subsection \<open>Operations\<close>

fun fneg :: "npfloat \<Rightarrow> npfloat" where
  "fneg (Num x) = Num (- x)"
| "fneg PInf = NInf"
| "fneg NInf = PInf"
| "fneg NaN = NaN"

text \<open>\<^verbatim>\<open>x + y\<close>: inf + (-inf) is nan.\<close>

fun fadd :: "fparith \<Rightarrow> npfloat \<Rightarrow> npfloat \<Rightarrow> npfloat" where
  "fadd A (Num x) (Num y) = fl A (x + y)"
| "fadd A NaN _ = NaN"
| "fadd A _ NaN = NaN"
| "fadd A PInf NInf = NaN"
| "fadd A NInf PInf = NaN"
| "fadd A PInf _ = PInf"
| "fadd A _ PInf = PInf"
| "fadd A NInf _ = NInf"
| "fadd A _ NInf = NInf"

definition fsub :: "fparith \<Rightarrow> npfloat \<Rightarrow> npfloat \<Rightarrow> npfloat" where
  "fsub A x y = fadd A x (fneg y)"

text \<open>\<^verbatim>\<open>x * y\<close>: 0 * inf is nan, otherwise the signs multiply.\<close>

fun fmul :: "fparith \<Rightarrow> npfloat \<Rightarrow> npfloat \<Rightarrow> npfloat" where
  "fmul A (Num x) (Num y) = fl A (x * y)"
| "fmul A NaN _ = NaN"
| "fmul A _ NaN = NaN"
| "fmul A (Num x) PInf = (if x > 0 then PInf else if x < 0 then NInf else NaN)"
| "fmul A (Num x) NInf = (if x > 0 then NInf else if x < 0 then PInf else NaN)"
| "fmul A PInf (Num y) = (if y > 0 then PInf else if y < 0 then NInf else NaN)"
| "fmul A NInf (Num y) = (if y > 0 then NInf else if y < 0 then PInf else NaN)"
| "fmul A PInf PInf = PInf"
| "fmul A PInf NInf = NInf"
| "fmul A NInf PInf = NInf"
| "fmul A NInf NInf = PInf"

text \<open>
  \<^verbatim>\<open>x / y\<close> on numpy values: a finite non-zero x divided by zero is an infinity,
  0 / 0 and inf / inf are nan, a finite x divided by an infinity is 0. No
  ZeroDivisionError is raised.
\<close>

fun fdiv :: "fparith \<Rightarrow> npfloat \<Rightarrow> npfloat \<Rightarrow> npfloat" where
  "fdiv A (Num x) (Num y) =
     (if y \<noteq> 0 then fl A (x / y)
      else if x > 0 then PInf else if x < 0 then NInf else NaN)"
| "fdiv A NaN _ = NaN"
| "fdiv A _ NaN = NaN"
| "fdiv A (Num x) PInf = Num 0"
| "fdiv A (Num x) NInf = Num 0"
| "fdiv A PInf (Num y) = (if y \<ge> 0 then PInf else NInf)"
| "fdiv A NInf (Num y) = (if y \<ge> 0 then NInf else PInf)"
| "fdiv A PInf PInf = NaN"
| "fdiv A PInf NInf = NaN"
| "fdiv A NInf PInf = NaN"
| "fdiv A NInf NInf = NaN"

text \<open>\<^verbatim>\<open>x ** 2\<close>, which numpy computes as the product \<^verbatim>\<open>x * x\<close>.\<close>

definition fpow2 :: "fparith \<Rightarrow> npfloat \<Rightarrow> npfloat" where
  "fpow2 A x = fmul A x x"

text \<open>
  \<^verbatim>\<open>x ** y\<close> for a positive float y that is not an integer (the notebook uses
  \<^verbatim>\<open>**(1/3)\<close>, and 1/3 is a float in Python 3): nan on a negative base, 0 on 0,
  the library's \<^verbatim>\<open>pow\<close> on a positive base.
\<close>

fun fpow_float :: "fparith \<Rightarrow> npfloat \<Rightarrow> real \<Rightarrow> npfloat" where
  "fpow_float A (Num x) y = (if x < 0 then NaN else if x = 0 then Num 0 else fpowr A x y)"
| "fpow_float A PInf y = PInf"
| "fpow_float A NInf y = PInf"
| "fpow_float A NaN y = NaN"

text \<open>\<^verbatim>\<open>np.sqrt\<close> is correctly rounded; nan on a negative argument.\<close>

fun np_sqrt :: "fparith \<Rightarrow> npfloat \<Rightarrow> npfloat" where
  "np_sqrt A (Num x) = (if x < 0 then NaN else fl A (sqrt x))"
| "np_sqrt A PInf = PInf"
| "np_sqrt A NInf = NaN"
| "np_sqrt A NaN = NaN"

text \<open>
  The library functions. The C standard fixes \<^verbatim>\<open>sin(0) = 0\<close>, \<^verbatim>\<open>cos(0) = 1\<close> and
  \<^verbatim>\<open>acos(1) = 0\<close>; \<^verbatim>\<open>acos\<close> outside [-1, 1] is nan.
\<close>

fun np_sin :: "fparith \<Rightarrow> npfloat \<Rightarrow> npfloat" where
  "np_sin A (Num x) = (if x = 0 then Num 0 else Num (fsin A x))"
| "np_sin A PInf = NaN"
| "np_sin A NInf = NaN"
| "np_sin A NaN = NaN"

fun np_cos :: "fparith \<Rightarrow> npfloat \<Rightarrow> npfloat" where
  "np_cos A (Num x) = (if x = 0 then Num 1 else Num (fcos A x))"
| "np_cos A PInf = NaN"
| "np_cos A NInf = NaN"
| "np_cos A NaN = NaN"

fun np_arccos :: "fparith \<Rightarrow> npfloat \<Rightarrow> npfloat" where
  "np_arccos A (Num x) =
     (if x < - 1 \<or> 1 < x then NaN else if x = 1 then Num 0 else Num (farccos A x))"
| "np_arccos A PInf = NaN"
| "np_arccos A NInf = NaN"
| "np_arccos A NaN = NaN"

text \<open>\<^verbatim>\<open>np.pi\<close> is the float64 nearest to \<open>\<pi>\<close>, 3.141592653589793.\<close>

definition np_pi :: real where
  "np_pi = 884279719003555 / 2 ^ 48"

section \<open>The four calculators\<close>

text \<open>
  \<^verbatim>\<open>calcRplanet(deltaF, Rstar, deltaFErr = 0)\<close>: the planet radius and its
  propagated uncertainty.
\<close>

definition calcRplanet ::
  "fparith \<Rightarrow> npfloat \<Rightarrow> npfloat \<Rightarrow> npfloat \<Rightarrow> npfloat \<times> npfloat" where
  "calcRplanet A deltaF Rstar deltaFErr =
     (let Rplanet = fmul A (np_sqrt A deltaF) Rstar;
          RplanetErr = fmul A (fdiv A Rstar (fmul A (Num 2) (np_sqrt A deltaF))) deltaFErr
      in (Rplanet, RplanetErr))"

text \<open>
  \<^verbatim>\<open>calcOrbitalRad(Mstar, P)\<close>. The gravitational constant \<open>G\<close> is imported from
  \<^verbatim>\<open>astropy.constants\<close>; its value is a parameter here.
\<close>

definition calcOrbitalRad :: "fparith \<Rightarrow> real \<Rightarrow> npfloat \<Rightarrow> npfloat \<Rightarrow> npfloat" where
  "calcOrbitalRad A G Mstar P =
     fpow_float A
       (fdiv A (fmul A (fmul A (Num G) Mstar) (fpow2 A P))
               (fmul A (Num 4) (fpow2 A (Num np_pi))))
       (1 / 3)"

definition calcOrbitalSpeed :: "fparith \<Rightarrow> npfloat \<Rightarrow> npfloat \<Rightarrow> npfloat" where
  "calcOrbitalSpeed A a P = fdiv A (fmul A (fmul A (Num 2) (Num np_pi)) a) P"

text \<open>
  \<^verbatim>\<open>calcOrbitalInc(Rstar, Rplanet, a, P, Tdur, RplanetErr=0*u.km, TdurErr=0*u.day)\<close>.
  The products and quotients associate to the left, as Python evaluates them.
\<close>

definition calcOrbitalInc ::
  "fparith \<Rightarrow> npfloat \<Rightarrow> npfloat \<Rightarrow> npfloat \<Rightarrow> npfloat \<Rightarrow> npfloat \<Rightarrow> npfloat \<Rightarrow> npfloat
     \<Rightarrow> npfloat \<times> npfloat" where
  "calcOrbitalInc A Rstar Rplanet a P Tdur RplanetErr TdurErr =
     (let X = fpow2 A (fadd A Rstar Rplanet);
          Xerr = fmul A (fmul A (Num 2) (fadd A Rstar Rplanet)) RplanetErr;
          Y = fpow2 A (fmul A a (np_sin A (fdiv A (fmul A (Num np_pi) Tdur) P)));
          Yerr = fmul A
                   (fdiv A
                      (fmul A
                         (fmul A
                            (fmul A
                               (fmul A (fmul A (Num 2) a)
                                  (np_sin A (fdiv A (fmul A (Num np_pi) Tdur) P)))
                               a)
                            (np_cos A (fdiv A (fmul A (Num np_pi) Tdur) P)))
                         (Num np_pi))
                      P)
                   TdurErr;
          Z = fsub A X Y;
          Zerr = np_sqrt A (fadd A (fpow2 A Xerr) (fpow2 A Yerr));
          Q = fdiv A (np_sqrt A Z) a;
          Qerr = fdiv A Zerr (fmul A (fmul A (Num 2) a) (np_sqrt A Z));
          i = fsub A (fdiv A (Num np_pi) (Num 2)) (np_arccos A Q);
          iErr = fdiv A Qerr (np_sqrt A (fsub A (Num 1) (fpow2 A Q)))
      in (i, iErr))"

text \<open>The two calls with the default arguments of the signatures.\<close>

definition calcRplanet_default :: "fparith \<Rightarrow> npfloat \<Rightarrow> npfloat \<Rightarrow> npfloat \<times> npfloat" where
  "calcRplanet_default A deltaF Rstar = calcRplanet A deltaF Rstar (Num 0)"

definition calcOrbitalInc_default ::
  "fparith \<Rightarrow> npfloat \<Rightarrow> npfloat \<Rightarrow> npfloat \<Rightarrow> npfloat \<Rightarrow> npfloat \<Rightarrow> npfloat \<times> npfloat" where
  "calcOrbitalInc_default A Rstar Rplanet a P Tdur =
     calcOrbitalInc A Rstar Rplanet a P Tdur (Num 0) (Num 0)"

section \<open>The parameter dictionary and getAllParms\<close>

text \<open>
  \<^verbatim>\<open>parmDict\<close> is a Python dict from key strings to quantities, mutated in place.
  \<^verbatim>\<open>parmDict[k]\<close> raises \<^verbatim>\<open>KeyError(k)\<close> on a missing key. A statement of the
  function is a state transformer that returns the exception it raised or its value,
  and the dictionary as it then stands.
\<close>

datatype pyerror = KeyError string

type_synonym parmDict = "string \<rightharpoonup> npfloat"

type_synonym 'a py = "parmDict \<Rightarrow> (pyerror + 'a) \<times> parmDict"

definition py_return :: "'a \<Rightarrow> 'a py" where
  "py_return x = (\<lambda>d. (Inr x, d))"

definition py_bind :: "'a py \<Rightarrow> ('a \<Rightarrow> 'b py) \<Rightarrow> 'b py" where
  "py_bind m f = (\<lambda>d. case m d of (Inl e, d') \<Rightarrow> (Inl e, d') | (Inr x, d') \<Rightarrow> f x d')"

definition getitem :: "string \<Rightarrow> npfloat py" where
  "getitem k = (\<lambda>d. case d k of None \<Rightarrow> (Inl (KeyError k), d) | Some v \<Rightarrow> (Inr v, d))"

definition setitem :: "string \<Rightarrow> npfloat \<Rightarrow> unit py" where
  "setitem k v = (\<lambda>d. (Inr (), d(k \<mapsto> v)))"

text \<open>
  The report of \<^verbatim>\<open>getAllParms\<close> reads eight keys and prints five lines; the printed
  text is not modelled.
\<close>

definition print_report :: "unit py" where
  "print_report =
     py_bind (getitem ''Rp2Rs'') (\<lambda>_.
     py_bind (getitem ''Rp2RsErr'') (\<lambda>_.
     py_bind (getitem ''Rplanet'') (\<lambda>_.
     py_bind (getitem ''RplanetErr'') (\<lambda>_.
     py_bind (getitem ''a'') (\<lambda>_.
     py_bind (getitem ''v'') (\<lambda>_.
     py_bind (getitem ''i'') (\<lambda>_.
     py_bind (getitem ''iErr'') (\<lambda>_.
     py_return ()))))))))"

text \<open>
  \<^verbatim>\<open>getAllParms(parmDict, silent=False)\<close>. In each assignment the right-hand side
  is evaluated first, its subscripts from left to right, and then the targets are
  stored from left to right.
\<close>

definition getAllParms :: "fparith \<Rightarrow> real \<Rightarrow> bool \<Rightarrow> unit py" where
  "getAllParms A G silent =
     py_bind (getitem ''deltaF'') (\<lambda>deltaF.
     py_bind (getitem ''Rstar'') (\<lambda>Rstar.
     py_bind (getitem ''deltaFErr'') (\<lambda>deltaFErr.
     py_bind (py_return (calcRplanet A deltaF Rstar deltaFErr)) (\<lambda>r.
     py_bind (setitem ''Rplanet'' (fst r)) (\<lambda>_.
     py_bind (setitem ''RplanetErr'' (snd r)) (\<lambda>_.
     py_bind (getitem ''Rplanet'') (\<lambda>Rplanet.
     py_bind (getitem ''Rstar'') (\<lambda>Rstar.
     py_bind (setitem ''Rp2Rs'' (fdiv A Rplanet Rstar)) (\<lambda>_.
     py_bind (getitem ''RplanetErr'') (\<lambda>RplanetErr.
     py_bind (getitem ''Rstar'') (\<lambda>Rstar.
     py_bind (setitem ''Rp2RsErr'' (fdiv A RplanetErr Rstar)) (\<lambda>_.
     py_bind (getitem ''Mstar'') (\<lambda>Mstar.
     py_bind (getitem ''P'') (\<lambda>P.
     py_bind (setitem ''a'' (calcOrbitalRad A G Mstar P)) (\<lambda>_.
     py_bind (getitem ''a'') (\<lambda>a.
     py_bind (getitem ''P'') (\<lambda>P.
     py_bind (setitem ''v'' (calcOrbitalSpeed A a P)) (\<lambda>_.
     py_bind (getitem ''Rstar'') (\<lambda>Rstar.
     py_bind (getitem ''Rplanet'') (\<lambda>Rplanet.
     py_bind (getitem ''a'') (\<lambda>a.
     py_bind (getitem ''P'') (\<lambda>P.
     py_bind (getitem ''Tdur'') (\<lambda>Tdur.
     py_bind (getitem ''RplanetErr'') (\<lambda>RplanetErr.
     py_bind (getitem ''TdurErr'') (\<lambda>TdurErr.
     py_bind (py_return (calcOrbitalInc A Rstar Rplanet a P Tdur RplanetErr TdurErr)) (\<lambda>r.
     py_bind (setitem ''i'' (fst r)) (\<lambda>_.
     py_bind (setitem ''iErr'' (snd r)) (\<lambda>_.
     if \<not> silent then print_report else py_return ()))))))))))))))))))))))))))))"

section \<open>Platforms and example inputs\<close>

text \<open>
  Exact arithmetic: nothing is rounded between the underflow and overflow thresholds
  and the library functions are the real ones. It is one admissible platform; it is
  used to show that the hypotheses of the theorems below can be met.
\<close>

definition exact_arith :: fparith where
  "exact_arith =
     \<lparr>rnd = Num, fsin = sin, fcos = cos, farccos = arccos, fpowr = (\<lambda>x y. Num (x powr y))\<rparr>"

text \<open>
  Exact arithmetic with the two library values that float64 platforms return where
  the real functions of \<^verbatim>\<open>np.pi\<close> are not float64 numbers:
  \<^verbatim>\<open>np.sin(np.pi/2) = 1.0\<close> and \<^verbatim>\<open>np.arccos(0.0) = np.pi/2\<close>.
\<close>

definition libm_arith :: fparith where
  "libm_arith =
     exact_arith
       \<lparr>fsin := (\<lambda>x. if x = np_pi / 2 then 1 else sin x),
        farccos := (\<lambda>x. if x = 0 then np_pi / 2 else arccos x)\<rparr>"

text \<open>
  Three properties of float64 platforms that some theorems below assume: rounding is
  monotone (and never yields nan), the library's \<^verbatim>\<open>pow\<close> is monotone in a
  non-negative base for the exponent 1/3, and in the normal range rounding commutes
  with doubling.
\<close>

definition rounds_monotone :: "fparith \<Rightarrow> bool" where
  "rounds_monotone A \<longleftrightarrow> (\<forall>x y. x \<le> y \<longrightarrow> fle (fl A x) (fl A y))"

definition pow_monotone :: "fparith \<Rightarrow> bool" where
  "pow_monotone A \<longleftrightarrow>
     (\<forall>x y. 0 \<le> x \<and> x \<le> y \<longrightarrow>
        fle (fpow_float A (Num x) (1 / 3)) (fpow_float A (Num y) (1 / 3)))"

definition binary_scaling :: "fparith \<Rightarrow> bool" where
  "binary_scaling A \<longleftrightarrow>
     (\<forall>x v. 1 / 2 ^ 1022 \<le> \<bar>x\<bar> \<and> \<bar>x\<bar> < 2 ^ 1022 \<and> fl A x = Num v \<longrightarrow> fl A (2 * x) = Num (2 * v))"

text \<open>
  The notebook's first object, as cell 12 builds it before the call
  \<^verbatim>\<open>getAllParms(object230)\<close>, in SI units (seconds, kilograms, metres; one day is
  86400 s, the solar mass 1.9884754153381438e30 kg and the solar radius 695700000 m of
  astropy's IAU 2015 constants), and the same dictionary holding only the five keys
  that the docstring of \<^verbatim>\<open>getAllParms\<close> lists.
\<close>

definition object230 :: parmDict where
  "object230 =
     [''P'' \<mapsto> Num (324357 / 100 * 86400),
      ''Mstar'' \<mapsto> Num (145 / 100 * (19884754153381438 * 10 ^ 14)),
      ''Rstar'' \<mapsto> Num (1591 / 1000 * 695700000),
      ''deltaF'' \<mapsto> Num (31 / 1000), ''deltaFErr'' \<mapsto> Num (2 / 1000),
      ''Tdur'' \<mapsto> Num (1725 / 1000 * 86400), ''TdurErr'' \<mapsto> Num (1 / 10 * 86400)]"

definition object230_knowns :: parmDict where
  "object230_knowns =
     [''P'' \<mapsto> Num (324357 / 100 * 86400),
      ''Mstar'' \<mapsto> Num (145 / 100 * (19884754153381438 * 10 ^ 14)),
      ''Rstar'' \<mapsto> Num (1591 / 1000 * 695700000),
      ''deltaF'' \<mapsto> Num (31 / 1000), ''Tdur'' \<mapsto> Num (1725 / 1000 * 86400)]"

section \<open>Rounding lemmas\<close>

lemma fl_zero [simp]: "fl A 0 = Num 0"
  by (simp add: fl_def)

lemma representableI:
  assumes "\<bar>m\<bar> \<le> 2 ^ 53 - 1" and "- 1074 \<le> e" and "e \<le> 971"
  shows "representable (of_int m * 2 powi e)"
  unfolding representable_def using assms by (intro bexI [of _ e] bexI [of _ m]) auto

lemma representable_bounds:
  assumes "representable r" and "r \<noteq> 0"
  shows "1 / 2 ^ 1074 \<le> \<bar>r\<bar>" and "\<bar>r\<bar> < 2 ^ 1024"
proof -
  obtain e m :: int where e: "- 1074 \<le> e" "e \<le> 971"
    and mb: "- (2 ^ 53 - 1) \<le> m" "m \<le> 2 ^ 53 - 1"
    and r: "r = of_int m * 2 powi e"
    using assms(1) unfolding representable_def by auto
  have m: "\<bar>m\<bar> \<le> 2 ^ 53 - 1" using mb by linarith
  have m0: "m \<noteq> 0" using assms(2) r by auto
  then have "1 \<le> \<bar>m\<bar>" by linarith
  then have "real_of_int 1 \<le> real_of_int \<bar>m\<bar>" by (simp only: of_int_le_iff)
  then have m1: "1 \<le> \<bar>real_of_int m\<bar>" by simp
  have ar: "\<bar>r\<bar> = \<bar>real_of_int m\<bar> * 2 powi e" by (simp add: r abs_mult)
  have lo: "(2::real) powi (- 1074) \<le> 2 powi e"
    using e by (intro power_int_increasing) simp_all
  have hi: "(2::real) powi e \<le> 2 powi 971"
    using e by (intro power_int_increasing) simp_all
  have "1 * (2::real) powi (- 1074) \<le> \<bar>real_of_int m\<bar> * 2 powi e"
    using m1 lo by (intro mult_mono) simp_all
  then show "1 / 2 ^ 1074 \<le> \<bar>r\<bar>"
    by (simp add: ar power_int_minus field_simps)
  have "real_of_int \<bar>m\<bar> \<le> real_of_int (2 ^ 53 - 1)"
    using m by (simp only: of_int_le_iff)
  then have "\<bar>real_of_int m\<bar> < 2 ^ 53" by simp
  then have "\<bar>real_of_int m\<bar> * 2 powi e < 2 ^ 53 * 2 powi 971"
    using hi by (intro mult_less_le_imp_less) simp_all
  also have "(2::real) ^ 53 * 2 powi 971 = 2 ^ 1024"
    by (simp add: power_add [symmetric])
  finally show "\<bar>r\<bar> < 2 ^ 1024" by (simp add: ar)
qed

lemma fl_representable:
  assumes "representable r"
  shows "fl A r = Num r"
proof (cases "r = 0")
  case True
  then show ?thesis by simp
next
  case False
  have "(1::real) / 2 ^ 1075 < 1 / 2 ^ 1074" by (simp add: field_simps)
  with representable_bounds [OF assms False] show ?thesis
    using assms False by (simp add: fl_def)
qed

lemma fl_overflow: "2 ^ 1024 \<le> r \<Longrightarrow> fl A r = PInf"
  by (simp add: fl_def)

lemma fl_underflow: "\<bar>r\<bar> \<le> 1 / 2 ^ 1075 \<Longrightarrow> fl A r = Num 0"
proof -
  assume h: "\<bar>r\<bar> \<le> 1 / 2 ^ 1075"
  have "(1::real) / 2 ^ 1075 < 2 ^ 1024"
    by (rule less_le_trans [of _ 1]) simp_all
  then show ?thesis using h by (simp add: fl_def)
qed

lemma representable_int:
  assumes "\<bar>n\<bar> \<le> 2 ^ 53 - 1"
  shows "representable (of_int n)"
  using representableI [of n 0] assms by simp

lemma representable_np_pi_half: "representable (np_pi / 2)"
  using representableI [of 884279719003555 "- 49"] by (simp add: np_pi_def power_int_minus field_simps)

lemma representable_np_pi: "representable np_pi"
  using representableI [of 884279719003555 "- 48"] by (simp add: np_pi_def power_int_minus field_simps)

lemma fl_one [simp]: "fl A 1 = Num 1"
  using fl_representable [OF representable_int [of 1]] by simp

lemma fl_numeral [simp]:
  "numeral k \<le> (2 ^ 53 - 1 :: int) \<Longrightarrow> fl A (numeral k) = Num (numeral k)"
  using fl_representable [OF representable_int [of "numeral k"]] by simp

lemma fl_neg_numeral [simp]:
  "numeral k \<le> (2 ^ 53 - 1 :: int) \<Longrightarrow> fl A (- numeral k) = Num (- numeral k)"
  using fl_representable [OF representable_int [of "- numeral k"]] by simp

lemma fl_np_pi [simp]: "fl A np_pi = Num np_pi"
  by (rule fl_representable [OF representable_np_pi])

lemma fl_np_pi_half [simp]: "fl A (np_pi / 2) = Num (np_pi / 2)"
  by (rule fl_representable [OF representable_np_pi_half])

lemma fl_half [simp]: "fl A (1 / 2) = Num (1 / 2)"
  using fl_representable [OF representableI [of 1 "- 1"], of A] by (simp add: power_int_minus)

lemma np_pi_pos: "0 < np_pi"
  by (simp add: np_pi_def)

lemma libm_sin_half_pi: "fsin libm_arith (np_pi / 2) = 1"
  by (simp add: libm_arith_def exact_arith_def)

lemma libm_arccos_zero: "farccos libm_arith 0 = np_pi / 2"
  by (simp add: libm_arith_def exact_arith_def)

lemma fl_exact_arith:
  "fl exact_arith r =
     (if 2 ^ 1024 \<le> \<bar>r\<bar> then (if 0 < r then PInf else NInf)
      else if \<bar>r\<bar> \<le> 1 / 2 ^ 1075 then Num 0 else Num r)"
  by (simp add: fl_def exact_arith_def)

lemma rounds_monotone_exact: "rounds_monotone exact_arith"
proof -
  have lt: "(1::real) / 2 ^ 1075 < 2 ^ 1024"
    by (rule less_le_trans [of _ 1]) simp_all
  show ?thesis
    unfolding rounds_monotone_def fl_exact_arith using lt
    by (auto simp: abs_if split: if_splits)
qed

lemma pow_monotone_exact: "pow_monotone exact_arith"
  unfolding pow_monotone_def
  by (auto simp: exact_arith_def intro: powr_mono2)

lemma binary_scaling_exact: "binary_scaling exact_arith"
proof -
  have a: "(1::real) / 2 ^ 1075 < 1 / 2 ^ 1022" by (simp add: field_simps)
  have b: "(2::real) * 2 ^ 1022 < 2 ^ 1024" by simp
  have c: "(1::real) / 2 ^ 1075 < 2 ^ 1024"
    by (rule less_le_trans [of _ 1]) simp_all
  show ?thesis
    unfolding binary_scaling_def fl_exact_arith using a b c
    by (auto simp: abs_if split: if_splits)
qed

lemma four_pi_sq_exact:
  "fmul exact_arith (Num 4) (fpow2 exact_arith (Num np_pi)) = Num (4 * (np_pi * np_pi))"
  by (simp add: fpow2_def fl_exact_arith np_pi_def)

lemma underflow_G:
  assumes "0 \<le> G" and "G \<le> 1 / 2 ^ 15"
  shows "fmul A (Num G) (Num (1 / 2 ^ 1060)) = Num 0"
proof -
  have "G * (1 / 2 ^ 1060) \<le> 1 / 2 ^ 15 * (1 / 2 ^ 1060)"
    using assms by (intro mult_right_mono) simp_all
  also have "(1::real) / 2 ^ 15 * (1 / 2 ^ 1060) = 1 / 2 ^ 1075"
    by (simp add: power_add [symmetric])
  finally have "\<bar>G * (1 / 2 ^ 1060)\<bar> \<le> 1 / 2 ^ 1075"
    using assms(1) by (simp add: abs_mult)
  then show ?thesis by (simp only: fmul.simps fl_underflow)
qed

section \<open>Special values and order\<close>

lemma fadd_NaN_right [simp]: "fadd A x NaN = NaN"
  by (cases x) simp_all

lemma fmul_NaN_right [simp]: "fmul A x NaN = NaN"
  by (cases x) simp_all

lemma fdiv_NaN_right [simp]: "fdiv A x NaN = NaN"
  by (cases x) simp_all

lemma fsub_NaN_right [simp]: "fsub A x NaN = NaN"
  by (simp add: fsub_def)

lemma fdiv_by_zero: "\<not> isfinite (fdiv A x (Num 0))"
  by (cases x) simp_all

lemma fdiv_nonfinite: "\<not> isfinite x \<Longrightarrow> \<not> isfinite (fdiv A x y)"
  by (cases x; cases y) simp_all

lemma fmul_nonfinite: "\<not> isfinite x \<Longrightarrow> \<not> isfinite (fmul A x y)"
  by (cases x; cases y) simp_all

lemma np_arccos_nonfinite: "\<not> isfinite x \<Longrightarrow> np_arccos A x = NaN"
  by (cases x) simp_all

lemma one_minus_square_nonfinite:
  "\<not> isfinite x \<Longrightarrow> np_sqrt A (fsub A (Num 1) (fpow2 A x)) = NaN"
  by (cases x) (simp_all add: fpow2_def fsub_def)

lemma fmul_zero_right: "isfinite x \<Longrightarrow> fmul A x (Num 0) = Num 0"
  by (cases x) simp_all

lemma fmul_by_zero_cases: "fmul A x (Num 0) = Num 0 \<or> fmul A x (Num 0) = NaN"
  by (cases x) simp_all

lemma flt_irrefl: "\<not> flt x x"
  by (cases x) simp_all

lemma fle_zero_cases:
  assumes "fle (Num 0) v"
  obtains x where "v = Num x" and "0 \<le> x" | "v = PInf"
  using assms by (cases v) simp_all

lemma fle_upper_Num:
  assumes "fle (Num 0) v" and "fle v (Num y)"
  obtains x where "v = Num x" and "0 \<le> x" and "x \<le> y"
  using assms by (cases v) simp_all

lemma rounds_monotoneD: "rounds_monotone A \<Longrightarrow> x \<le> y \<Longrightarrow> fle (fl A x) (fl A y)"
  by (simp add: rounds_monotone_def)

lemma fl_nonneg: "rounds_monotone A \<Longrightarrow> 0 \<le> x \<Longrightarrow> fle (Num 0) (fl A x)"
  using rounds_monotoneD [of A 0 x] by simp

lemma fmul_mono:
  assumes "rounds_monotone A" and "0 \<le> x1" and "x1 \<le> x2" and "0 \<le> y"
  shows "fle (fmul A (Num x1) (Num y)) (fmul A (Num x2) (Num y))"
    and "fle (Num 0) (fmul A (Num x1) (Num y))"
proof -
  have "x1 * y \<le> x2 * y" using assms by (simp add: mult_right_mono)
  then show "fle (fmul A (Num x1) (Num y)) (fmul A (Num x2) (Num y))"
    using assms(1) by (simp add: rounds_monotoneD)
  have "0 \<le> x1 * y" using assms by simp
  then show "fle (Num 0) (fmul A (Num x1) (Num y))"
    using assms(1) by (simp add: fl_nonneg)
qed

lemma fmul_mono_right:
  assumes "rounds_monotone A" and "0 \<le> x" and "0 \<le> y1" and "y1 \<le> y2"
  shows "fle (fmul A (Num x) (Num y1)) (fmul A (Num x) (Num y2))"
    and "fle (Num 0) (fmul A (Num x) (Num y1))"
proof -
  have "x * y1 \<le> x * y2" using assms by (simp add: mult_left_mono)
  then show "fle (fmul A (Num x) (Num y1)) (fmul A (Num x) (Num y2))"
    using assms(1) by (simp add: rounds_monotoneD)
  have "0 \<le> x * y1" using assms by simp
  then show "fle (Num 0) (fmul A (Num x) (Num y1))"
    using assms(1) by (simp add: fl_nonneg)
qed

lemma fdiv_mono:
  assumes "rounds_monotone A" and "0 < c" and "fle (Num 0) v1" and "fle v1 v2"
  shows "fle (fdiv A v1 (Num c)) (fdiv A v2 (Num c))"
    and "fle (Num 0) (fdiv A v1 (Num c))"
proof -
  show nn: "fle (Num 0) (fdiv A v1 (Num c))"
  proof (rule fle_zero_cases [OF assms(3)])
    fix x assume "v1 = Num x" "0 \<le> x"
    then show ?thesis using assms(1,2) by (simp add: fl_nonneg)
  next
    assume "v1 = PInf"
    then show ?thesis using assms(2) by simp
  qed
  show "fle (fdiv A v1 (Num c)) (fdiv A v2 (Num c))"
  proof (rule fle_zero_cases [OF assms(3)])
    fix x assume v1: "v1 = Num x" "0 \<le> x"
    show ?thesis
    proof (cases v2)
      case (Num y)
      then have "x / c \<le> y / c" using assms(2,4) v1 by (simp add: divide_right_mono)
      then show ?thesis using Num v1 assms(1,2) by (simp add: rounds_monotoneD)
    next
      case PInf
      have "fdiv A v1 (Num c) \<noteq> NaN" using nn by auto
      then show ?thesis using PInf assms(2) by (cases "fdiv A v1 (Num c)") simp_all
    next
      case NInf
      then show ?thesis using assms(4) v1 by simp
    next
      case NaN
      then show ?thesis using assms(4) v1 by simp
    qed
  next
    assume "v1 = PInf"
    then show ?thesis using assms(2,4) by (cases v2) simp_all
  qed
qed

lemma fpow_mono:
  assumes "pow_monotone A" and "fle (Num 0) v1" and "fle v1 v2"
  shows "fle (fpow_float A v1 (1 / 3)) (fpow_float A v2 (1 / 3))"
proof (rule fle_zero_cases [OF assms(2)])
  fix x assume v1: "v1 = Num x" "0 \<le> x"
  have self: "fle (fpow_float A (Num x) (1 / 3)) (fpow_float A (Num x) (1 / 3))"
    using assms(1) v1 unfolding pow_monotone_def by blast
  show ?thesis
  proof (cases v2)
    case (Num y)
    then have "x \<le> y" using assms(3) v1 by simp
    then show ?thesis using assms(1) v1 Num unfolding pow_monotone_def by blast
  next
    case PInf
    have "fpow_float A (Num x) (1 / 3) \<noteq> NaN" using self by auto
    then show ?thesis using PInf v1 by (cases "fpow_float A (Num x) (1 / 3)") simp_all
  next
    case NInf
    then show ?thesis using assms(3) v1 by simp
  next
    case NaN
    then show ?thesis using assms(3) v1 by simp
  qed
next
  assume "v1 = PInf"
  then show ?thesis using assms(3) by (cases v2) simp_all
qed

lemma rel_error_chain:
  fixes s t p q R u :: real
  assumes "0 \<le> u" and "0 < R" and "0 \<le> t"
    and s: "\<bar>s - t\<bar> \<le> u * t"
    and p: "\<bar>p - s * R\<bar> \<le> u * \<bar>s * R\<bar>"
    and q: "\<bar>q - p / R\<bar> \<le> u * \<bar>p / R\<bar>"
  shows "\<bar>q - t\<bar> \<le> ((1 + u) ^ 3 - 1) * t"
proof -
  have "\<bar>s\<bar> \<le> \<bar>s - t\<bar> + t" using assms(3) by linarith
  with s have s1: "\<bar>s\<bar> \<le> (1 + u) * t" by (simp add: algebra_simps)
  have pR: "\<bar>p / R - s\<bar> \<le> u * \<bar>s\<bar>"
  proof -
    have "\<bar>p / R - s\<bar> = \<bar>p - s * R\<bar> / R" using assms(2) by (simp add: field_simps)
    also have "\<dots> \<le> u * \<bar>s * R\<bar> / R" using p assms(2) by (simp add: divide_right_mono)
    also have "\<dots> = u * \<bar>s\<bar>" using assms(2) by (simp add: abs_mult)
    finally show ?thesis .
  qed
  have p1: "\<bar>p / R\<bar> \<le> (1 + u) * \<bar>s\<bar>"
  proof -
    have "\<bar>p / R\<bar> \<le> \<bar>p / R - s\<bar> + \<bar>s\<bar>" by linarith
    with pR show ?thesis by (simp add: algebra_simps)
  qed
  have us: "u * \<bar>s\<bar> \<le> u * ((1 + u) * t)" using s1 assms(1) by (rule mult_left_mono)
  have "(1 + u) * \<bar>s\<bar> \<le> (1 + u) * ((1 + u) * t)" using s1 assms(1) by (intro mult_left_mono) simp_all
  with p1 have "\<bar>p / R\<bar> \<le> (1 + u) * ((1 + u) * t)" by linarith
  then have "u * \<bar>p / R\<bar> \<le> u * ((1 + u) * ((1 + u) * t))" using assms(1) by (rule mult_left_mono)
  with q have q1: "\<bar>q - p / R\<bar> \<le> u * ((1 + u) * ((1 + u) * t))" by linarith
  have "\<bar>q - t\<bar> \<le> \<bar>q - p / R\<bar> + \<bar>p / R - s\<bar> + \<bar>s - t\<bar>" by linarith
  also have "\<dots> \<le> u * ((1 + u) * ((1 + u) * t)) + u * ((1 + u) * t) + u * t"
    using q1 pR us s by linarith
  also have "\<dots> = ((1 + u) ^ 3 - 1) * t" by (simp add: power3_eq_cube algebra_simps)
  finally show ?thesis .
qed

section \<open>The dictionary monad\<close>

lemma py_bind_getitem:
  "py_bind (getitem k) f d = (case d k of None \<Rightarrow> (Inl (KeyError k), d) | Some v \<Rightarrow> f v d)"
  by (simp add: py_bind_def getitem_def split: option.splits)

lemma py_bind_setitem: "py_bind (setitem k v) f d = f () (d(k \<mapsto> v))"
  by (simp add: py_bind_def setitem_def)

lemma py_bind_return: "py_bind (py_return x) f d = f x d"
  by (simp add: py_bind_def py_return_def)

lemma py_return_apply: "py_return x d = (Inr x, d)"
  by (simp add: py_return_def)

lemmas py_simps = getAllParms_def print_report_def py_bind_getitem py_bind_setitem py_bind_return
  py_return_apply

lemma getAllParms_Rp2Rs:
  assumes "d ''deltaF'' = Some dF" and "d ''Rstar'' = Some Rs" and "d ''deltaFErr'' = Some e"
  shows "snd (getAllParms A G silent d) ''Rp2Rs'' = Some (fdiv A (fst (calcRplanet A dF Rs e)) Rs)"
  using assms by (simp add: py_simps split: option.splits)

text \<open>What \<open>getAllParms\<close> leaves in the dictionary.\<close>

lemma getAllParms_inputs_kept:
  "snd (getAllParms A G silent d) ''P'' = d ''P''
   \<and> snd (getAllParms A G silent d) ''Mstar'' = d ''Mstar''
   \<and> snd (getAllParms A G silent d) ''Rstar'' = d ''Rstar''
   \<and> snd (getAllParms A G silent d) ''deltaF'' = d ''deltaF''
   \<and> snd (getAllParms A G silent d) ''deltaFErr'' = d ''deltaFErr''
   \<and> snd (getAllParms A G silent d) ''Tdur'' = d ''Tdur''
   \<and> snd (getAllParms A G silent d) ''TdurErr'' = d ''TdurErr''"
  by (simp add: py_simps split: option.splits)

lemma getAllParms_rerun:
  "getAllParms A G silent (snd (getAllParms A G silent d)) = getAllParms A G silent d"
  by (simp add: py_simps split: option.splits)

lemma getAllParms_outputs:
  assumes "d ''deltaF'' = Some dF" and "d ''Rstar'' = Some Rs" and "d ''deltaFErr'' = Some dFE"
    and "d ''Mstar'' = Some M" and "d ''P'' = Some P"
    and "d ''Tdur'' = Some Td" and "d ''TdurErr'' = Some TdE"
  shows "fst (getAllParms A G silent d) = Inr ()
   \<and> snd (getAllParms A G silent d) ''Rplanet'' = Some (fst (calcRplanet A dF Rs dFE))
   \<and> snd (getAllParms A G silent d) ''RplanetErr'' = Some (snd (calcRplanet A dF Rs dFE))
   \<and> snd (getAllParms A G silent d) ''Rp2Rs'' = Some (fdiv A (fst (calcRplanet A dF Rs dFE)) Rs)
   \<and> snd (getAllParms A G silent d) ''Rp2RsErr'' = Some (fdiv A (snd (calcRplanet A dF Rs dFE)) Rs)
   \<and> snd (getAllParms A G silent d) ''a'' = Some (calcOrbitalRad A G M P)
   \<and> snd (getAllParms A G silent d) ''v'' = Some (calcOrbitalSpeed A (calcOrbitalRad A G M P) P)"
  using assms by (simp add: py_simps)

section \<open>What the calculators return\<close>

text \<open>
  The two components of \<open>calcOrbitalInc\<close>, with the let-bound quantities of the source
  written out: \<open>Z = X - Y\<close>, \<open>Q = sqrt Z / a\<close> and \<open>Qerr = Zerr / (2 * a * sqrt Z)\<close>.
\<close>

lemma calcOrbitalInc_fst:
  "fst (calcOrbitalInc A Rstar Rplanet a P Tdur RplanetErr TdurErr) =
     fsub A (fdiv A (Num np_pi) (Num 2))
       (np_arccos A
          (fdiv A
             (np_sqrt A
                (fsub A (fpow2 A (fadd A Rstar Rplanet))
                   (fpow2 A (fmul A a (np_sin A (fdiv A (fmul A (Num np_pi) Tdur) P))))))
             a))"
  by (simp add: calcOrbitalInc_def Let_def)

lemma calcOrbitalInc_snd:
  "snd (calcOrbitalInc A Rstar Rplanet a P Tdur RplanetErr TdurErr) =
     fdiv A
       (fdiv A
          (np_sqrt A
             (fadd A (fpow2 A (fmul A (fmul A (Num 2) (fadd A Rstar Rplanet)) RplanetErr))
                (fpow2 A
                   (fmul A
                      (fdiv A
                         (fmul A
                            (fmul A
                               (fmul A
                                  (fmul A (fmul A (Num 2) a)
                                     (np_sin A (fdiv A (fmul A (Num np_pi) Tdur) P)))
                                  a)
                               (np_cos A (fdiv A (fmul A (Num np_pi) Tdur) P)))
                            (Num np_pi))
                         P)
                      TdurErr))))
          (fmul A (fmul A (Num 2) a)
             (np_sqrt A
                (fsub A (fpow2 A (fadd A Rstar Rplanet))
                   (fpow2 A (fmul A a (np_sin A (fdiv A (fmul A (Num np_pi) Tdur) P))))))))
       (np_sqrt A
          (fsub A (Num 1)
             (fpow2 A
                (fdiv A
                   (np_sqrt A
                      (fsub A (fpow2 A (fadd A Rstar Rplanet))
                         (fpow2 A (fmul A a (np_sin A (fdiv A (fmul A (Num np_pi) Tdur) P))))))
                   a))))"
  by (simp add: calcOrbitalInc_def Let_def)

text \<open>When \<open>Q\<close> is not finite, both components are nan.\<close>

lemma calcOrbitalInc_nonfinite_Q:
  assumes "\<not> isfinite
      (fdiv A
         (np_sqrt A
            (fsub A (fpow2 A (fadd A Rstar Rplanet))
               (fpow2 A (fmul A a (np_sin A (fdiv A (fmul A (Num np_pi) Tdur) P))))))
         a)"
  shows "calcOrbitalInc A Rstar Rplanet a P Tdur RplanetErr TdurErr = (NaN, NaN)"
proof -
  have "fst (calcOrbitalInc A Rstar Rplanet a P Tdur RplanetErr TdurErr) = NaN"
    unfolding calcOrbitalInc_fst using assms by (simp add: np_arccos_nonfinite)
  moreover have "snd (calcOrbitalInc A Rstar Rplanet a P Tdur RplanetErr TdurErr) = NaN"
    unfolding calcOrbitalInc_snd using assms by (simp add: one_minus_square_nonfinite)
  ultimately show ?thesis by (simp add: prod_eq_iff)
qed

text \<open>Two traces on the platform \<open>libm_arith\<close>: \<open>Z = 1 - 4\<close> and \<open>Z = 1 - 1\<close>.\<close>

lemma libm_Z_negative:
  "fsub libm_arith (fpow2 libm_arith (fadd libm_arith (Num 1) (Num 0)))
     (fpow2 libm_arith (fmul libm_arith (Num 2)
        (np_sin libm_arith (fdiv libm_arith (fmul libm_arith (Num np_pi) (Num 1)) (Num 2)))))
   = Num (- 3)"
  using np_pi_pos by (simp add: fpow2_def fsub_def libm_sin_half_pi)

lemma libm_Z_zero:
  "fsub libm_arith (fpow2 libm_arith (fadd libm_arith (Num 1) (Num 0)))
     (fpow2 libm_arith (fmul libm_arith (Num 1)
        (np_sin libm_arith (fdiv libm_arith (fmul libm_arith (Num np_pi) (Num 1)) (Num 2)))))
   = Num 0"
  using np_pi_pos by (simp add: fpow2_def fsub_def libm_sin_half_pi)

text \<open>A trace that every platform computes exactly: \<open>Tdur = 0\<close>, so \<open>Y = 0\<close> and \<open>Z = X\<close>.\<close>

lemma Z_at_Tdur_zero:
  "fsub A (fpow2 A (fadd A (Num 1) (Num 0)))
     (fpow2 A (fmul A (Num av) (np_sin A (fdiv A (fmul A (Num np_pi) (Num 0)) (Num 1)))))
   = Num 1"
  by (simp add: fpow2_def fsub_def)

section \<open>RadiusRatio: calcRplanet\<close>

text \<open>
  C8 (as the code has it). For a transit depth \<open>deltaF\<close> in (0, 1] and a stellar
  radius for which the factor \<open>k = Rstar / (2 * sqrt deltaF)\<close> is computed as a finite
  float, the radius uncertainty returned by \<open>calcRplanet\<close> is the rounded product
  \<open>k * deltaFErr\<close>: it is 0 at \<open>deltaFErr = 0\<close>, and doubling \<open>deltaFErr\<close> doubles it
  when \<open>k * deltaFErr\<close> lies in the normal range, where rounding commutes with
  doubling. Nothing is promised when the factor overflows.
\<close>

theorem calcRplanet_linear:
  assumes "0 < dF" and "dF \<le> 1"
    and "fdiv A (Num Rs) (fmul A (Num 2) (np_sqrt A (Num dF))) = Num k"
  shows "snd (calcRplanet A (Num dF) (Num Rs) (Num e)) = fl A (k * e)
       \<and> snd (calcRplanet A (Num dF) (Num Rs) (Num 0)) = Num 0
       \<and> (binary_scaling A \<and> 1 / 2 ^ 1022 \<le> \<bar>k * e\<bar> \<and> \<bar>k * e\<bar> < 2 ^ 1022
            \<and> snd (calcRplanet A (Num dF) (Num Rs) (Num e)) = Num v
          \<longrightarrow> snd (calcRplanet A (Num dF) (Num Rs) (Num (2 * e))) = Num (2 * v))"
proof -
  have s: "snd (calcRplanet A (Num dF) (Num Rs) (Num x)) = fl A (k * x)" for x
    by (simp only: calcRplanet_def Let_def snd_conv assms(3) fmul.simps)
  have "fl A (k * (2 * e)) = Num (2 * v)"
    if "binary_scaling A \<and> 1 / 2 ^ 1022 \<le> \<bar>k * e\<bar> \<and> \<bar>k * e\<bar> < 2 ^ 1022 \<and> fl A (k * e) = Num v"
  proof -
    have "fl A (2 * (k * e)) = Num (2 * v)"
      using that unfolding binary_scaling_def by blast
    then show ?thesis by (simp add: mult.left_commute)
  qed
  then show ?thesis by (simp add: s)
qed

theorem calcRplanet_linear_witness:
  "(0::real) < 1 / 4 \<and> (1 / 4 :: real) \<le> 1
   \<and> fdiv exact_arith (Num 3) (fmul exact_arith (Num 2) (np_sqrt exact_arith (Num (1 / 4)))) = Num 3
   \<and> binary_scaling exact_arith
   \<and> snd (calcRplanet exact_arith (Num (1 / 4)) (Num 3) (Num 5)) = Num 15
   \<and> snd (calcRplanet exact_arith (Num (1 / 4)) (Num 3) (Num 0)) = Num 0
   \<and> snd (calcRplanet exact_arith (Num (1 / 4)) (Num 3) (Num (2 * 5))) = Num (2 * 15)"
proof -
  have r: "sqrt (1 / 4) = 1 / 2" by (simp add: real_sqrt_divide)
  have k: "fdiv exact_arith (Num 3) (fmul exact_arith (Num 2) (np_sqrt exact_arith (Num (1 / 4)))) = Num 3"
    by (simp add: r fl_exact_arith)
  have v: "fl exact_arith (3 * 5) = Num 15" by simp
  note t = calcRplanet_linear [where A = exact_arith and dF = "1 / 4" and Rs = 3 and k = 3
      and e = 5 and v = 15, OF _ _ k]
  show ?thesis
    using t k v binary_scaling_exact by simp
qed

text \<open>
  The claim as the specification words it (for every \<open>Rstar\<close>, \<open>deltaFErr = 0\<close> gives
  the uncertainty 0) fails for \<open>deltaF = 1/64\<close> and \<open>Rstar = 2\<^sup>1\<^sup>0\<^sup>2\<^sup>3\<close>: the factor
  \<open>Rstar / (2 * 0.125)\<close> overflows to inf, and \<open>inf * 0\<close> is nan, on every platform.
\<close>

theorem calcRplanet_linear_counterexample:
  "\<forall>A. (0::real) < 1 / 64 \<and> (1 / 64 :: real) \<le> 1
      \<and> snd (calcRplanet A (Num (1 / 64)) (Num (2 ^ 1023)) (Num 0)) = NaN"
proof
  fix A
  have r: "sqrt (1 / 64) = 1 / 8"
    by (rule real_sqrt_unique) (simp_all add: power2_eq_square)
  have e8: "fl A (1 / 8) = Num (1 / 8)"
    using fl_representable [OF representableI [of 1 "- 3"], of A] by (simp add: power_int_minus)
  have e4: "fl A (1 / 4) = Num (1 / 4)"
    using fl_representable [OF representableI [of 1 "- 2"], of A] by (simp add: power_int_minus)
  have "(2::real) ^ 1024 \<le> 2 ^ 1023 / (1 / 4)" by simp
  then have o: "fl A (2 ^ 1023 / (1 / 4)) = PInf"
    by (rule fl_overflow)
  have "snd (calcRplanet A (Num (1 / 64)) (Num (2 ^ 1023)) (Num 0)) = NaN"
    unfolding calcRplanet_def Let_def snd_conv np_sqrt.simps r
    using e8 e4 o by simp
  then show "(0::real) < 1 / 64 \<and> (1 / 64 :: real) \<le> 1
      \<and> snd (calcRplanet A (Num (1 / 64)) (Num (2 ^ 1023)) (Num 0)) = NaN"
    by simp
qed

text \<open>
  C2 (as the code has it). \<open>calcRplanet\<close> has no check on \<open>deltaF\<close> and raises
  nothing. For every \<open>deltaF \<le> 0\<close> (finite \<open>Rstar\<close> and \<open>deltaFErr\<close>) it returns a
  pair: for \<open>deltaF < 0\<close> both components are nan; for \<open>deltaF = 0\<close> the radius is 0
  and the radius uncertainty, \<open>Rstar / 0 * deltaFErr\<close>, is an infinity or nan.
\<close>

theorem calcRplanet_nonpositive_depth:
  assumes "dF \<le> 0"
  shows "(dF < 0 \<longrightarrow> calcRplanet A (Num dF) (Num Rs) (Num e) = (NaN, NaN))
       \<and> (dF = 0 \<longrightarrow> fst (calcRplanet A (Num dF) (Num Rs) (Num e)) = Num 0)
       \<and> \<not> isfinite (snd (calcRplanet A (Num dF) (Num Rs) (Num e)))"
  using assms by (auto simp: calcRplanet_def)

theorem calcRplanet_nonpositive_depth_witness:
  "(0::real) \<le> 0
   \<and> fst (calcRplanet exact_arith (Num 0) (Num 1) (Num 1)) = Num 0
   \<and> \<not> isfinite (snd (calcRplanet exact_arith (Num 0) (Num 1) (Num 1)))
   \<and> - 1 / 100 \<le> (0::real) \<and> - 1 / 100 < (0::real)
   \<and> calcRplanet exact_arith (Num (- 1 / 100)) (Num 1) (Num 1) = (NaN, NaN)"
  using calcRplanet_nonpositive_depth [where A = exact_arith and dF = 0 and Rs = 1 and e = 1]
    calcRplanet_nonpositive_depth [where A = exact_arith and dF = "- 1 / 100" and Rs = 1 and e = 1]
  by simp

text \<open>
  The claim as the specification words it (a domain error, never a nan or an infinity)
  fails at \<open>deltaF = -0.01\<close> and at \<open>deltaF = 0\<close>: the call returns, with nan and inf.
\<close>

theorem calcRplanet_domain_error_counterexample:
  "\<forall>A. calcRplanet A (Num (- 1 / 100)) (Num 1) (Num 0) = (NaN, NaN)
      \<and> calcRplanet A (Num 0) (Num 1) (Num 1) = (Num 0, PInf)"
  by (simp add: calcRplanet_def)

section \<open>OrbitalRadius: calcOrbitalRad\<close>

text \<open>
  C9 (as the code has it). On a platform whose rounding and \<^verbatim>\<open>pow\<close> are monotone
  and whose \<open>4 * np.pi ** 2\<close> is a positive finite float, and with a positive \<open>G\<close>,
  \<open>calcOrbitalRad\<close> is non-decreasing in the stellar mass over the non-negative masses
  (for a fixed period), and non-decreasing in the period over the non-negative periods
  (for a fixed non-negative mass), as long as \<open>G * Mstar\<close> and \<open>P ** 2\<close> do not
  overflow; and \<open>calcOrbitalRad Mstar 0 = 0\<close> for every \<open>Mstar\<close> with a finite
  \<open>G * Mstar\<close>. It is not strictly increasing. The comparison is Python's \<^verbatim>\<open><=\<close> on
  the returned floats.
\<close>

theorem calcOrbitalRad_monotone:
  assumes "rounds_monotone A" and "pow_monotone A" and "0 < G"
    and "fmul A (Num 4) (fpow2 A (Num np_pi)) = Num c" and "0 < c"
  shows "(0 \<le> M1 \<and> M1 \<le> M2 \<and> isfinite (fmul A (Num G) (Num M2)) \<and> isfinite (fpow2 A (Num P))
           \<longrightarrow> fle (calcOrbitalRad A G (Num M1) (Num P)) (calcOrbitalRad A G (Num M2) (Num P)))
       \<and> (0 \<le> M \<and> 0 \<le> P1 \<and> P1 \<le> P2 \<and> isfinite (fmul A (Num G) (Num M))
            \<and> isfinite (fpow2 A (Num P2))
           \<longrightarrow> fle (calcOrbitalRad A G (Num M) (Num P1)) (calcOrbitalRad A G (Num M) (Num P2)))
       \<and> (isfinite (fmul A (Num G) (Num M)) \<longrightarrow> calcOrbitalRad A G (Num M) (Num 0) = Num 0)"
proof (intro conjI impI)
  assume h: "0 \<le> M1 \<and> M1 \<le> M2 \<and> isfinite (fmul A (Num G) (Num M2)) \<and> isfinite (fpow2 A (Num P))"
  then obtain x2 where g2: "fmul A (Num G) (Num M2) = Num x2"
    by (cases "fmul A (Num G) (Num M2)") simp_all
  have le: "fle (fmul A (Num G) (Num M1)) (Num x2)"
    and nn: "fle (Num 0) (fmul A (Num G) (Num M1))"
    using fmul_mono_right [OF assms(1), of G M1 M2] h assms(3) g2 by simp_all
  obtain x1 where g1: "fmul A (Num G) (Num M1) = Num x1" and x: "0 \<le> x1" "x1 \<le> x2"
    by (rule fle_upper_Num [OF nn le])
  have "fle (Num 0) (fpow2 A (Num P))"
    using fl_nonneg [OF assms(1), of "P * P"] by (simp add: fpow2_def)
  with h obtain y where w: "fpow2 A (Num P) = Num y" and y: "0 \<le> y"
    by (cases "fpow2 A (Num P)") simp_all
  note n = fmul_mono [OF assms(1) x y]
  note q = fdiv_mono [OF assms(1,5) n(2) n(1)]
  show "fle (calcOrbitalRad A G (Num M1) (Num P)) (calcOrbitalRad A G (Num M2) (Num P))"
    unfolding calcOrbitalRad_def assms(4) g1 g2 w
    by (rule fpow_mono [OF assms(2) q(2) q(1)])
next
  assume h: "0 \<le> M \<and> 0 \<le> P1 \<and> P1 \<le> P2 \<and> isfinite (fmul A (Num G) (Num M))
            \<and> isfinite (fpow2 A (Num P2))"
  have "fle (Num 0) (fmul A (Num G) (Num M))"
    using fl_nonneg [OF assms(1), of "G * M"] h assms(3) by simp
  with h obtain x where g: "fmul A (Num G) (Num M) = Num x" and x: "0 \<le> x"
    by (cases "fmul A (Num G) (Num M)") simp_all
  from h obtain y2 where w2: "fpow2 A (Num P2) = Num y2"
    by (cases "fpow2 A (Num P2)") simp_all
  have pp: "0 \<le> P1 * P1" "P1 * P1 \<le> P2 * P2"
    using h by (simp_all add: mult_mono)
  have le: "fle (fpow2 A (Num P1)) (Num y2)" and nn: "fle (Num 0) (fpow2 A (Num P1))"
    using rounds_monotoneD [OF assms(1) pp(2)] fl_nonneg [OF assms(1) pp(1)] w2
    by (simp_all add: fpow2_def)
  obtain y1 where w1: "fpow2 A (Num P1) = Num y1" and y: "0 \<le> y1" "y1 \<le> y2"
    by (rule fle_upper_Num [OF nn le])
  note n = fmul_mono_right [OF assms(1) x y]
  note q = fdiv_mono [OF assms(1,5) n(2) n(1)]
  show "fle (calcOrbitalRad A G (Num M) (Num P1)) (calcOrbitalRad A G (Num M) (Num P2))"
    unfolding calcOrbitalRad_def assms(4) g w1 w2
    by (rule fpow_mono [OF assms(2) q(2) q(1)])
next
  assume "isfinite (fmul A (Num G) (Num M))"
  then obtain x where g: "fmul A (Num G) (Num M) = Num x"
    by (cases "fmul A (Num G) (Num M)") simp_all
  show "calcOrbitalRad A G (Num M) (Num 0) = Num 0"
    unfolding calcOrbitalRad_def assms(4) g using assms(5) by (simp add: fpow2_def)
qed

theorem calcOrbitalRad_monotone_witness:
  "rounds_monotone exact_arith \<and> pow_monotone exact_arith \<and> (0::real) < 1
   \<and> fmul exact_arith (Num 4) (fpow2 exact_arith (Num np_pi)) = Num (4 * (np_pi * np_pi))
   \<and> 0 < 4 * (np_pi * np_pi)
   \<and> fle (calcOrbitalRad exact_arith 1 (Num 1) (Num 2)) (calcOrbitalRad exact_arith 1 (Num 3) (Num 2))
   \<and> fle (calcOrbitalRad exact_arith 1 (Num 1) (Num 2)) (calcOrbitalRad exact_arith 1 (Num 1) (Num 5))
   \<and> calcOrbitalRad exact_arith 1 (Num 1) (Num 0) = Num 0"
proof -
  have c: "0 < 4 * (np_pi * np_pi)" using np_pi_pos by simp
  have f: "isfinite (fmul exact_arith (Num 1) (Num 3))" "isfinite (fmul exact_arith (Num 1) (Num 1))"
    "isfinite (fpow2 exact_arith (Num 2))" "isfinite (fpow2 exact_arith (Num 5))"
    by (simp_all add: fpow2_def)
  show ?thesis
    using c f rounds_monotone_exact pow_monotone_exact four_pi_sq_exact
      calcOrbitalRad_monotone [OF rounds_monotone_exact pow_monotone_exact _ four_pi_sq_exact c,
        where G = 1 and ?M1.0 = 1 and ?M2.0 = 3 and P = 2 and M = 1 and ?P1.0 = 2 and ?P2.0 = 5]
    by simp
qed

text \<open>
  The claim as the specification words it (strictly increasing in \<open>Mstar\<close> for a fixed
  \<open>P > 0\<close>) fails at \<open>P = 1\<close> between the masses 0 and \<open>2\<^sup>-\<^sup>1\<^sup>0\<^sup>6\<^sup>0\<close>: with
  \<open>G = 6.6743e-11\<close> the product \<open>G * Mstar\<close> underflows to 0, and the two calls
  return the same float on every platform.
\<close>

theorem calcOrbitalRad_strict_counterexample:
  "\<forall>A. (0::real) < 1 / 2 ^ 1060
      \<and> \<not> flt (calcOrbitalRad A (66743 / 10 ^ 15) (Num 0) (Num 1))
              (calcOrbitalRad A (66743 / 10 ^ 15) (Num (1 / 2 ^ 1060)) (Num 1))"
proof
  fix A
  have "fmul A (Num (66743 / 10 ^ 15)) (Num (1 / 2 ^ 1060)) = Num 0"
    by (rule underflow_G) simp_all
  moreover have "fmul A (Num (66743 / 10 ^ 15)) (Num 0) = Num 0" by simp
  ultimately have "calcOrbitalRad A (66743 / 10 ^ 15) (Num (1 / 2 ^ 1060)) (Num 1)
      = calcOrbitalRad A (66743 / 10 ^ 15) (Num 0) (Num 1)"
    by (simp only: calcOrbitalRad_def)
  then show "(0::real) < 1 / 2 ^ 1060
      \<and> \<not> flt (calcOrbitalRad A (66743 / 10 ^ 15) (Num 0) (Num 1))
              (calcOrbitalRad A (66743 / 10 ^ 15) (Num (1 / 2 ^ 1060)) (Num 1))"
    by (simp add: flt_irrefl)
qed

section \<open>OrbitalInclination: calcOrbitalInc\<close>

text \<open>
  In this section \<open>Z\<close> and \<open>Q\<close> are the floats that the code computes:
  \<open>Z = X - Y\<close> and \<open>Q = sqrt Z / a\<close>.
\<close>

text \<open>
  C3 (as the code has it). \<open>calcOrbitalInc\<close> checks nothing and raises nothing. When
  the computed \<open>Z\<close> is negative, or \<open>a = 0\<close>, it returns nan for the angle and nan
  for its uncertainty; when the computed \<open>Q\<close> lies outside [-1, 1] it returns nan for
  the angle; when the computed \<open>sqrt Z\<close> is 0 with a finite \<open>a \<noteq> 0\<close> it returns the
  rounded \<open>np.pi / 2 - arccos 0\<close> for the angle and an uncertainty that is an infinity
  or nan.
\<close>

theorem calcOrbitalInc_no_error:
  fixes A :: fparith and Rstar Rplanet a P Tdur RplanetErr TdurErr :: npfloat
  defines "Z \<equiv> fsub A (fpow2 A (fadd A Rstar Rplanet))
                 (fpow2 A (fmul A a (np_sin A (fdiv A (fmul A (Num np_pi) Tdur) P))))"
  defines "Q \<equiv> fdiv A (np_sqrt A Z) a"
  defines "r \<equiv> calcOrbitalInc A Rstar Rplanet a P Tdur RplanetErr TdurErr"
  shows "(flt Z (Num 0) \<or> a = Num 0 \<longrightarrow> r = (NaN, NaN))
       \<and> (flt (Num 1) Q \<or> flt Q (Num (- 1)) \<longrightarrow> fst r = NaN)
       \<and> (np_sqrt A Z = Num 0 \<and> isfinite a \<and> a \<noteq> Num 0 \<longrightarrow>
            fst r = fl A (np_pi / 2 - farccos A 0) \<and> \<not> isfinite (snd r))"
proof (intro conjI impI)
  have fst_r: "fst r = fsub A (fdiv A (Num np_pi) (Num 2)) (np_arccos A Q)"
    unfolding r_def calcOrbitalInc_fst Q_def Z_def by (rule refl)
  {
    assume h: "flt Z (Num 0) \<or> a = Num 0"
    have "\<not> isfinite Q"
    proof (cases "a = Num 0")
      case True
      then show ?thesis by (simp add: Q_def fdiv_by_zero)
    next
      case False
      with h have "flt Z (Num 0)" by simp
      then have "np_sqrt A Z = NaN" by (cases Z) simp_all
      then show ?thesis by (simp add: Q_def)
    qed
    then show "r = (NaN, NaN)"
      unfolding r_def Q_def Z_def by (rule calcOrbitalInc_nonfinite_Q)
  }
  {
    assume "flt (Num 1) Q \<or> flt Q (Num (- 1))"
    then have "np_arccos A Q = NaN" by (cases Q) auto
    then show "fst r = NaN" by (simp add: fst_r)
  }
  {
    assume h: "np_sqrt A Z = Num 0 \<and> isfinite a \<and> a \<noteq> Num 0"
    then obtain av where a: "a = Num av" "av \<noteq> 0" by (cases a) auto
    have Q0: "Q = Num 0" using h a by (simp add: Q_def)
    show "fst r = fl A (np_pi / 2 - farccos A 0)"
      by (simp add: fst_r Q0 fsub_def)
    have z: "\<not> isfinite (fdiv A x (fmul A (fmul A (Num 2) a) (Num 0)))" for x
      using fmul_by_zero_cases [of A "fmul A (Num 2) a"] fdiv_by_zero [of A x] by auto
    have "np_sqrt A
        (fsub A (fpow2 A (fadd A Rstar Rplanet))
           (fpow2 A (fmul A a (np_sin A (fdiv A (fmul A (Num np_pi) Tdur) P))))) = Num 0"
      using h by (simp add: Z_def)
    then show "\<not> isfinite (snd r)"
      unfolding r_def calcOrbitalInc_snd by (simp add: z fdiv_nonfinite del: isfinite.simps)
  }
qed

theorem calcOrbitalInc_no_error_witness:
  "calcOrbitalInc libm_arith (Num 1) (Num 0) (Num 2) (Num 2) (Num 1) (Num 0) (Num 0) = (NaN, NaN)
   \<and> calcOrbitalInc libm_arith (Num 1) (Num 0) (Num 0) (Num 2) (Num 1) (Num 0) (Num 0) = (NaN, NaN)
   \<and> fst (calcOrbitalInc libm_arith (Num 2) (Num 0) (Num 1) (Num 1) (Num 0) (Num 0) (Num 0)) = NaN
   \<and> \<not> isfinite
        (snd (calcOrbitalInc libm_arith (Num 1) (Num 0) (Num 1) (Num 2) (Num 1) (Num 0) (Num 0)))"
proof -
  have q: "fsub libm_arith (fpow2 libm_arith (fadd libm_arith (Num 2) (Num 0)))
     (fpow2 libm_arith (fmul libm_arith (Num 1)
        (np_sin libm_arith (fdiv libm_arith (fmul libm_arith (Num np_pi) (Num 0)) (Num 1)))))
     = Num 4"
    by (simp add: fpow2_def fsub_def)
  show ?thesis
    using calcOrbitalInc_no_error [where A = libm_arith and Rstar = "Num 1" and Rplanet = "Num 0"
        and a = "Num 2" and P = "Num 2" and Tdur = "Num 1" and RplanetErr = "Num 0"
        and TdurErr = "Num 0"]
      calcOrbitalInc_no_error [where A = libm_arith and Rstar = "Num 1" and Rplanet = "Num 0"
        and a = "Num 0" and P = "Num 2" and Tdur = "Num 1" and RplanetErr = "Num 0"
        and TdurErr = "Num 0"]
      calcOrbitalInc_no_error [where A = libm_arith and Rstar = "Num 2" and Rplanet = "Num 0"
        and a = "Num 1" and P = "Num 1" and Tdur = "Num 0" and RplanetErr = "Num 0"
        and TdurErr = "Num 0"]
      calcOrbitalInc_no_error [where A = libm_arith and Rstar = "Num 1" and Rplanet = "Num 0"
        and a = "Num 1" and P = "Num 2" and Tdur = "Num 1" and RplanetErr = "Num 0"
        and TdurErr = "Num 0"]
    unfolding libm_Z_negative libm_Z_zero q
    by simp
qed

text \<open>
  The claim as the specification words it (a reported domain error instead of a nan)
  fails on every platform for an orbit of radius 0, and on \<open>libm_arith\<close> where the
  transit lasts half the period of an orbit of radius 2 around a star of radius 1
  (\<open>Z = 1 - 4 < 0\<close>): the call returns nan twice.
\<close>

theorem calcOrbitalInc_domain_error_counterexample:
  "(\<forall>A. calcOrbitalInc A (Num 1) (Num 0) (Num 0) (Num 2) (Num 1) (Num 0) (Num 0) = (NaN, NaN))
   \<and> calcOrbitalInc libm_arith (Num 1) (Num 0) (Num 2) (Num 2) (Num 1) (Num 0) (Num 0)
       = (NaN, NaN)"
proof
  show "\<forall>A. calcOrbitalInc A (Num 1) (Num 0) (Num 0) (Num 2) (Num 1) (Num 0) (Num 0) = (NaN, NaN)"
    by (intro allI calcOrbitalInc_nonfinite_Q fdiv_by_zero)
  show "calcOrbitalInc libm_arith (Num 1) (Num 0) (Num 2) (Num 2) (Num 1) (Num 0) (Num 0)
       = (NaN, NaN)"
    by (rule calcOrbitalInc_nonfinite_Q) (simp only: libm_Z_negative, simp)
qed

text \<open>
  C4 (as the code has it). For every valid input, one whose computed \<open>Q\<close> is a float
  in [0, 1] (the computed form of \<open>a > 0\<close> and \<open>0 \<le> Z \<le> a\<^sup>2\<close>), the first returned value is the
  rounded difference \<open>np.pi / 2 - arccos Q\<close>, the angle that the notebook reports as
  the offset from edge-on, not \<open>arccos Q\<close>; the second returned value is the float
  quotient of \<open>Qerr = Zerr / (2 * a * sqrt Z)\<close> and \<open>sqrt (1 - Q ** 2)\<close>.
\<close>

theorem calcOrbitalInc_returns:
  fixes A :: fparith and Rstar Rplanet a P Tdur RplanetErr TdurErr :: npfloat
  defines "Z \<equiv> fsub A (fpow2 A (fadd A Rstar Rplanet))
                 (fpow2 A (fmul A a (np_sin A (fdiv A (fmul A (Num np_pi) Tdur) P))))"
  defines "Q \<equiv> fdiv A (np_sqrt A Z) a"
  defines "Xerr \<equiv> fmul A (fmul A (Num 2) (fadd A Rstar Rplanet)) RplanetErr"
  defines "Yerr \<equiv> fmul A (fdiv A (fmul A (fmul A (fmul A (fmul A (fmul A (Num 2) a)
               (np_sin A (fdiv A (fmul A (Num np_pi) Tdur) P))) a)
               (np_cos A (fdiv A (fmul A (Num np_pi) Tdur) P))) (Num np_pi)) P) TdurErr"
  defines "Qerr \<equiv> fdiv A (np_sqrt A (fadd A (fpow2 A Xerr) (fpow2 A Yerr)))
                    (fmul A (fmul A (Num 2) a) (np_sqrt A Z))"
  defines "r \<equiv> calcOrbitalInc A Rstar Rplanet a P Tdur RplanetErr TdurErr"
  assumes "Q = Num q" and "0 \<le> q" and "q \<le> 1"
  shows "fst r = fl A (np_pi / 2 - (if q = 1 then 0 else farccos A q))
       \<and> snd r = fdiv A Qerr (np_sqrt A (fsub A (Num 1) (fpow2 A (Num q))))"
proof
  have "fst r = fsub A (fdiv A (Num np_pi) (Num 2)) (np_arccos A Q)"
    unfolding r_def calcOrbitalInc_fst Q_def Z_def by (rule refl)
  then show "fst r = fl A (np_pi / 2 - (if q = 1 then 0 else farccos A q))"
    using assms(7-9) by (simp add: fsub_def)
  have "snd r = fdiv A Qerr (np_sqrt A (fsub A (Num 1) (fpow2 A Q)))"
    unfolding r_def calcOrbitalInc_snd Qerr_def Xerr_def Yerr_def Q_def Z_def by (rule refl)
  then show "snd r = fdiv A Qerr (np_sqrt A (fsub A (Num 1) (fpow2 A (Num q))))"
    using assms(7) by simp
qed

theorem calcOrbitalInc_returns_witness:
  "fdiv exact_arith
     (np_sqrt exact_arith
        (fsub exact_arith (fpow2 exact_arith (fadd exact_arith (Num 1) (Num 0)))
           (fpow2 exact_arith (fmul exact_arith (Num 2)
              (np_sin exact_arith (fdiv exact_arith (fmul exact_arith (Num np_pi) (Num 0)) (Num 1)))))))
     (Num 2) = Num (1 / 2)
   \<and> (0::real) \<le> 1 / 2 \<and> (1 / 2 :: real) \<le> 1
   \<and> fst (calcOrbitalInc exact_arith (Num 1) (Num 0) (Num 2) (Num 1) (Num 0) (Num 1) (Num 1))
       = fl exact_arith (np_pi / 2 - farccos exact_arith (1 / 2))"
proof -
  have q: "fdiv exact_arith
     (np_sqrt exact_arith
        (fsub exact_arith (fpow2 exact_arith (fadd exact_arith (Num 1) (Num 0)))
           (fpow2 exact_arith (fmul exact_arith (Num 2)
              (np_sin exact_arith (fdiv exact_arith (fmul exact_arith (Num np_pi) (Num 0)) (Num 1)))))))
     (Num 2) = Num (1 / 2)"
    unfolding Z_at_Tdur_zero by simp
  show ?thesis
    using q calcOrbitalInc_returns [where A = exact_arith and Rstar = "Num 1" and Rplanet = "Num 0"
        and a = "Num 2" and P = "Num 1" and Tdur = "Num 0" and RplanetErr = "Num 1"
        and TdurErr = "Num 1" and q = "1 / 2", OF q]
    by simp
qed

text \<open>
  The claim as the specification words it (the first returned value is \<open>arccos Q\<close>)
  fails on every platform for a star of radius 1 and an orbit of radius 1 with a
  transit of duration 0: \<open>Z = 1\<close>, \<open>Q = 1\<close>, \<open>arccos Q = 0\<close>, and the call returns
  \<open>np.pi / 2\<close>.
\<close>

theorem calcOrbitalInc_arccos_counterexample:
  "\<forall>A. fdiv A
          (np_sqrt A
             (fsub A (fpow2 A (fadd A (Num 1) (Num 0)))
                (fpow2 A (fmul A (Num 1)
                   (np_sin A (fdiv A (fmul A (Num np_pi) (Num 0)) (Num 1)))))))
          (Num 1) = Num 1
      \<and> np_arccos A (Num 1) = Num 0
      \<and> fst (calcOrbitalInc A (Num 1) (Num 0) (Num 1) (Num 1) (Num 0) (Num 0) (Num 0))
          = Num (np_pi / 2)
      \<and> Num (np_pi / 2) \<noteq> Num 0"
  unfolding calcOrbitalInc_fst Z_at_Tdur_zero
  using np_pi_pos by (simp add: fsub_def)

text \<open>
  C5 (as the code has it). When the computed \<open>Z\<close> is exactly 0 (with \<open>a > 0\<close>), the
  computed \<open>Q\<close> is 0 and, on a platform whose \<open>arccos 0\<close> is the float \<open>np.pi / 2\<close>,
  \<open>arccos Q\<close> is 90 degrees, so that the returned angle \<open>np.pi / 2 - arccos Q\<close>,
  which the notebook reports as the inclination offset, is 0 (edge-on); the call
  returns, no error is raised.
\<close>

theorem calcOrbitalInc_edge_on:
  fixes A :: fparith and Rstar Rplanet P Tdur RplanetErr TdurErr :: npfloat and av :: real
  defines "Z \<equiv> fsub A (fpow2 A (fadd A Rstar Rplanet))
                 (fpow2 A (fmul A (Num av) (np_sin A (fdiv A (fmul A (Num np_pi) Tdur) P))))"
  defines "r \<equiv> calcOrbitalInc A Rstar Rplanet (Num av) P Tdur RplanetErr TdurErr"
  assumes "Z = Num 0" and "0 < av" and "farccos A 0 = np_pi / 2"
  shows "fdiv A (np_sqrt A Z) (Num av) = Num 0
       \<and> np_arccos A (Num 0) = Num (np_pi / 2)
       \<and> fst r = Num 0"
proof -
  have q: "fdiv A (np_sqrt A Z) (Num av) = Num 0"
    using assms(3,4) by simp
  have "np_arccos A (Num 0) = Num (farccos A 0)" by simp
  then have c: "np_arccos A (Num 0) = Num (np_pi / 2)"
    by (simp only: assms(5))
  have "fst r = fsub A (fdiv A (Num np_pi) (Num 2)) (np_arccos A (Num 0))"
    unfolding r_def calcOrbitalInc_fst Z_def [symmetric] q by (rule refl)
  then have "fst r = Num 0"
    unfolding c by (simp add: fsub_def)
  with q c show ?thesis by simp
qed

theorem calcOrbitalInc_edge_on_witness:
  "fsub libm_arith (fpow2 libm_arith (fadd libm_arith (Num 1) (Num 0)))
     (fpow2 libm_arith (fmul libm_arith (Num 1)
        (np_sin libm_arith (fdiv libm_arith (fmul libm_arith (Num np_pi) (Num 1)) (Num 2)))))
     = Num 0
   \<and> (0::real) < 1 \<and> farccos libm_arith 0 = np_pi / 2
   \<and> fst (calcOrbitalInc libm_arith (Num 1) (Num 0) (Num 1) (Num 2) (Num 1) (Num 0) (Num 0)) = Num 0"
  using calcOrbitalInc_edge_on [where A = libm_arith and Rstar = "Num 1" and Rplanet = "Num 0"
      and av = 1 and P = "Num 2" and Tdur = "Num 1" and RplanetErr = "Num 0" and TdurErr = "Num 0",
      OF libm_Z_zero _ libm_arccos_zero]
    libm_Z_zero libm_arccos_zero
  by simp

text \<open>
  The claim as the specification words it (the reported offset is 90 degrees at
  \<open>Z = 0\<close>) fails for a star of radius 1, an orbit of radius 1 and a transit that
  lasts half the period: on \<open>libm_arith\<close>, as in float64, the returned angle is 0
  radians, not \<open>np.pi / 2\<close>.
\<close>

theorem calcOrbitalInc_edge_on_counterexample:
  "fst (calcOrbitalInc libm_arith (Num 1) (Num 0) (Num 1) (Num 2) (Num 1) (Num 0) (Num 0)) = Num 0
   \<and> Num 0 \<noteq> Num (np_pi / 2)"
  unfolding calcOrbitalInc_fst libm_Z_zero
  using np_pi_pos by (simp add: fsub_def libm_arccos_zero)

text \<open>
  C10. For every input whose computed \<open>Q = sqrt Z / a\<close> is a float in [0, 1], on a
  platform whose rounding is monotone and whose \<open>arccos Q\<close> lies between 0 and the
  float \<open>np.pi / 2\<close>, the returned angle lies between 0 and \<open>np.pi / 2\<close>, whatever
  the two uncertainties are.
\<close>

theorem calcOrbitalInc_angle_range:
  fixes A :: fparith and Rstar Rplanet a P Tdur RplanetErr TdurErr :: npfloat
  defines "Z \<equiv> fsub A (fpow2 A (fadd A Rstar Rplanet))
                 (fpow2 A (fmul A a (np_sin A (fdiv A (fmul A (Num np_pi) Tdur) P))))"
  defines "r \<equiv> calcOrbitalInc A Rstar Rplanet a P Tdur RplanetErr TdurErr"
  assumes "fdiv A (np_sqrt A Z) a = Num q" and "0 \<le> q" and "q \<le> 1"
    and "rounds_monotone A"
    and "0 \<le> farccos A q" and "farccos A q \<le> np_pi / 2"
  shows "fle (Num 0) (fst r) \<and> fle (fst r) (Num (np_pi / 2))"
proof -
  define t where "t = (if q = 1 then 0 else farccos A q)"
  have t: "0 \<le> t" "t \<le> np_pi / 2"
    using assms(7,8) np_pi_pos by (simp_all add: t_def)
  have "fst r = fl A (np_pi / 2 - t)"
    using assms(3-5) unfolding r_def calcOrbitalInc_fst Z_def [symmetric]
    by (simp add: fsub_def t_def)
  moreover have "fle (fl A 0) (fl A (np_pi / 2 - t))"
    using assms(6) [unfolded rounds_monotone_def, rule_format, of 0 "np_pi / 2 - t"] t
    by simp
  moreover have "fle (fl A (np_pi / 2 - t)) (fl A (np_pi / 2))"
    using assms(6) [unfolded rounds_monotone_def, rule_format, of "np_pi / 2 - t" "np_pi / 2"] t
    by simp
  ultimately show ?thesis by simp
qed

theorem calcOrbitalInc_angle_range_witness:
  "fdiv exact_arith
     (np_sqrt exact_arith
        (fsub exact_arith (fpow2 exact_arith (fadd exact_arith (Num 1) (Num 0)))
           (fpow2 exact_arith (fmul exact_arith (Num 2)
              (np_sin exact_arith (fdiv exact_arith (fmul exact_arith (Num np_pi) (Num 0)) (Num 1)))))))
     (Num 2) = Num (1 / 2)
   \<and> (0::real) \<le> 1 / 2 \<and> (1 / 2 :: real) \<le> 1 \<and> rounds_monotone exact_arith
   \<and> 0 \<le> farccos exact_arith (1 / 2) \<and> farccos exact_arith (1 / 2) \<le> np_pi / 2
   \<and> fle (Num 0)
        (fst (calcOrbitalInc exact_arith (Num 1) (Num 0) (Num 2) (Num 1) (Num 0) (Num 0) (Num 0)))
   \<and> fle (fst (calcOrbitalInc exact_arith (Num 1) (Num 0) (Num 2) (Num 1) (Num 0) (Num 0) (Num 0)))
        (Num (np_pi / 2))"
proof -
  have q: "fdiv exact_arith
     (np_sqrt exact_arith
        (fsub exact_arith (fpow2 exact_arith (fadd exact_arith (Num 1) (Num 0)))
           (fpow2 exact_arith (fmul exact_arith (Num 2)
              (np_sin exact_arith (fdiv exact_arith (fmul exact_arith (Num np_pi) (Num 0)) (Num 1)))))))
     (Num 2) = Num (1 / 2)"
    unfolding Z_at_Tdur_zero by simp
  have c: "0 \<le> farccos exact_arith (1 / 2)" "farccos exact_arith (1 / 2) \<le> np_pi / 2"
    using pi_less_4 by (simp_all add: exact_arith_def np_pi_def)
  show ?thesis
    using q c rounds_monotone_exact
      calcOrbitalInc_angle_range [where A = exact_arith and Rstar = "Num 1" and Rplanet = "Num 0"
        and a = "Num 2" and P = "Num 1" and Tdur = "Num 0" and RplanetErr = "Num 0"
        and TdurErr = "Num 0" and q = "1 / 2", OF q _ _ rounds_monotone_exact c]
    by simp
qed

section \<open>SystemParameterSet: getAllParms\<close>

text \<open>
  C1. The docstring of \<open>getAllParms\<close> asks for a dictionary with the keys P, Mstar,
  Rstar, deltaF and Tdur, and \<open>calcRplanet\<close> and \<open>calcOrbitalInc\<close> default the two
  uncertainties to 0; but \<open>getAllParms\<close> subscripts \<^verbatim>\<open>parmDict["deltaFErr"]\<close> and
  \<^verbatim>\<open>parmDict["TdurErr"]\<close> unconditionally. On the first object of the notebook
  without its two uncertainties the call raises \<^verbatim>\<open>KeyError('deltaFErr')\<close> and leaves
  the dictionary as it was; with \<open>deltaFErr = 0\<close> alone it raises
  \<^verbatim>\<open>KeyError('TdurErr')\<close>; with both uncertainties given as 0 it returns.
\<close>

theorem getAllParms_missing_uncertainty:
  "getAllParms A G silent object230_knowns = (Inl (KeyError ''deltaFErr''), object230_knowns)
   \<and> fst (getAllParms A G silent (object230_knowns(''deltaFErr'' \<mapsto> Num 0)))
       = Inl (KeyError ''TdurErr'')
   \<and> fst (getAllParms A G silent
            (object230_knowns(''deltaFErr'' \<mapsto> Num 0, ''TdurErr'' \<mapsto> Num 0)))
       = Inr ()"
  by (simp add: py_simps object230_knowns_def)

text \<open>
  C6. \<open>getAllParms\<close> leaves the seven input entries P, Mstar, Rstar, deltaF,
  deltaFErr, Tdur and TdurErr of its dictionary as they were, whether it returns or
  raises. When the seven entries are present it returns, and the entries Rplanet,
  RplanetErr, Rp2Rs, Rp2RsErr, a and v of the final dictionary hold the values that
  their own stages computed from the inputs: the inclination stage and the report
  that run after them change none of them. Running it a second time on the dictionary
  it left gives the same outcome and the same dictionary.
\<close>

theorem getAllParms_frame:
  "snd (getAllParms A G silent d) ''P'' = d ''P''
   \<and> snd (getAllParms A G silent d) ''Mstar'' = d ''Mstar''
   \<and> snd (getAllParms A G silent d) ''Rstar'' = d ''Rstar''
   \<and> snd (getAllParms A G silent d) ''deltaF'' = d ''deltaF''
   \<and> snd (getAllParms A G silent d) ''deltaFErr'' = d ''deltaFErr''
   \<and> snd (getAllParms A G silent d) ''Tdur'' = d ''Tdur''
   \<and> snd (getAllParms A G silent d) ''TdurErr'' = d ''TdurErr''
   \<and> (d ''deltaF'' = Some dF \<and> d ''Rstar'' = Some Rs \<and> d ''deltaFErr'' = Some dFE
        \<and> d ''Mstar'' = Some M \<and> d ''P'' = Some P
        \<and> d ''Tdur'' = Some Td \<and> d ''TdurErr'' = Some TdE \<longrightarrow>
      fst (getAllParms A G silent d) = Inr ()
      \<and> snd (getAllParms A G silent d) ''Rplanet'' = Some (fst (calcRplanet A dF Rs dFE))
      \<and> snd (getAllParms A G silent d) ''RplanetErr'' = Some (snd (calcRplanet A dF Rs dFE))
      \<and> snd (getAllParms A G silent d) ''Rp2Rs'' = Some (fdiv A (fst (calcRplanet A dF Rs dFE)) Rs)
      \<and> snd (getAllParms A G silent d) ''Rp2RsErr''
          = Some (fdiv A (snd (calcRplanet A dF Rs dFE)) Rs)
      \<and> snd (getAllParms A G silent d) ''a'' = Some (calcOrbitalRad A G M P)
      \<and> snd (getAllParms A G silent d) ''v''
          = Some (calcOrbitalSpeed A (calcOrbitalRad A G M P) P))
   \<and> getAllParms A G silent (snd (getAllParms A G silent d)) = getAllParms A G silent d"
  using getAllParms_inputs_kept [of A G silent d] getAllParms_rerun [of A G silent d]
    getAllParms_outputs [of d dF Rs dFE M P Td TdE A G silent]
  by blast

theorem getAllParms_frame_witness:
  "object230 ''deltaF'' = Some (Num (31 / 1000))
   \<and> object230 ''Rstar'' = Some (Num (1591 / 1000 * 695700000))
   \<and> object230 ''deltaFErr'' = Some (Num (2 / 1000))
   \<and> object230 ''Mstar'' = Some (Num (145 / 100 * (19884754153381438 * 10 ^ 14)))
   \<and> object230 ''P'' = Some (Num (324357 / 100 * 86400))
   \<and> object230 ''Tdur'' = Some (Num (1725 / 1000 * 86400))
   \<and> object230 ''TdurErr'' = Some (Num (1 / 10 * 86400))
   \<and> fst (getAllParms exact_arith (667408 / 10 ^ 16) False object230) = Inr ()
   \<and> snd (getAllParms exact_arith (667408 / 10 ^ 16) False object230) ''a''
       = Some (calcOrbitalRad exact_arith (667408 / 10 ^ 16)
                 (Num (145 / 100 * (19884754153381438 * 10 ^ 14)))
                 (Num (324357 / 100 * 86400)))
   \<and> snd (getAllParms exact_arith (667408 / 10 ^ 16) False object230) ''Rstar''
       = Some (Num (1591 / 1000 * 695700000))"
proof -
  have h: "object230 ''deltaF'' = Some (Num (31 / 1000))
     \<and> object230 ''Rstar'' = Some (Num (1591 / 1000 * 695700000))
     \<and> object230 ''deltaFErr'' = Some (Num (2 / 1000))
     \<and> object230 ''Mstar'' = Some (Num (145 / 100 * (19884754153381438 * 10 ^ 14)))
     \<and> object230 ''P'' = Some (Num (324357 / 100 * 86400))
     \<and> object230 ''Tdur'' = Some (Num (1725 / 1000 * 86400))
     \<and> object230 ''TdurErr'' = Some (Num (1 / 10 * 86400))"
    by (simp add: object230_def)
  note t = getAllParms_frame [where d = object230 and A = exact_arith
        and G = "667408 / 10 ^ 16" and silent = False
        and dF = "Num (31 / 1000)" and Rs = "Num (1591 / 1000 * 695700000)"
        and dFE = "Num (2 / 1000)"
        and M = "Num (145 / 100 * (19884754153381438 * 10 ^ 14))"
        and P = "Num (324357 / 100 * 86400)"
        and Td = "Num (1725 / 1000 * 86400)" and TdE = "Num (1 / 10 * 86400)"]
  show ?thesis using h t by simp
qed

text \<open>
  C7 (as the code has it). For every transit depth \<open>deltaF \<ge> 0\<close> and stellar radius
  \<open>Rstar > 0\<close> for which \<open>sqrt deltaF\<close>, the product \<open>sqrt deltaF * Rstar\<close> and its
  quotient by \<open>Rstar\<close> are each computed as a finite float with a relative rounding
  error of at most \<open>u\<close>, the entry Rp2Rs that \<open>getAllParms\<close> stores differs from
  \<open>sqrt deltaF\<close> by at most \<open>((1 + u)\<^sup>3 - 1) * sqrt deltaF\<close>, whatever \<open>Rstar\<close> is. It
  need not be equal to \<open>sqrt deltaF\<close>, and nothing is promised when the product
  overflows or underflows.
\<close>

theorem getAllParms_radius_ratio:
  assumes "d ''deltaF'' = Some (Num dF)" and "d ''Rstar'' = Some (Num Rs)"
    and "d ''deltaFErr'' = Some e" and "0 \<le> dF" and "0 < Rs" and "0 \<le> u"
    and "np_sqrt A (Num dF) = Num s" and "\<bar>s - sqrt dF\<bar> \<le> u * sqrt dF"
    and "fmul A (Num s) (Num Rs) = Num p" and "\<bar>p - s * Rs\<bar> \<le> u * \<bar>s * Rs\<bar>"
    and "fdiv A (Num p) (Num Rs) = Num q" and "\<bar>q - p / Rs\<bar> \<le> u * \<bar>p / Rs\<bar>"
  shows "snd (getAllParms A G silent d) ''Rp2Rs'' = Some (Num q)
       \<and> \<bar>q - sqrt dF\<bar> \<le> ((1 + u) ^ 3 - 1) * sqrt dF"
proof
  have "fst (calcRplanet A (Num dF) (Num Rs) e) = Num p"
    by (simp only: calcRplanet_def Let_def fst_conv assms(7) assms(9))
  then show "snd (getAllParms A G silent d) ''Rp2Rs'' = Some (Num q)"
    by (simp only: getAllParms_Rp2Rs [OF assms(1-3)] assms(11))
  show "\<bar>q - sqrt dF\<bar> \<le> ((1 + u) ^ 3 - 1) * sqrt dF"
    using assms(6) assms(5) _ assms(8) assms(10) assms(12)
    by (rule rel_error_chain) (simp add: assms(4))
qed

theorem getAllParms_radius_ratio_witness:
  "[''deltaF'' \<mapsto> Num (1 / 4), ''Rstar'' \<mapsto> Num 3, ''deltaFErr'' \<mapsto> Num 0] ''deltaF''
     = Some (Num (1 / 4))
   \<and> (0::real) \<le> 1 / 4 \<and> (0::real) < 3 \<and> (0::real) \<le> 0
   \<and> np_sqrt exact_arith (Num (1 / 4)) = Num (1 / 2)
   \<and> \<bar>1 / 2 - sqrt (1 / 4)\<bar> \<le> 0 * sqrt (1 / 4)
   \<and> fmul exact_arith (Num (1 / 2)) (Num 3) = Num (3 / 2)
   \<and> fdiv exact_arith (Num (3 / 2)) (Num 3) = Num (1 / 2)
   \<and> snd (getAllParms exact_arith 1 False
            [''deltaF'' \<mapsto> Num (1 / 4), ''Rstar'' \<mapsto> Num 3, ''deltaFErr'' \<mapsto> Num 0]) ''Rp2Rs''
       = Some (Num (1 / 2))
   \<and> \<bar>1 / 2 - sqrt (1 / 4)\<bar> \<le> ((1 + 0) ^ 3 - 1) * sqrt (1 / 4)"
proof -
  have r: "sqrt (1 / 4) = 1 / 2" by (simp add: real_sqrt_divide)
  have s: "np_sqrt exact_arith (Num (1 / 4)) = Num (1 / 2)" by (simp add: r)
  have p: "fmul exact_arith (Num (1 / 2)) (Num 3) = Num (3 / 2)" by (simp add: fl_exact_arith)
  have q: "fdiv exact_arith (Num (3 / 2)) (Num 3) = Num (1 / 2)" by simp
  have e: "\<bar>1 / 2 - sqrt (1 / 4)\<bar> \<le> 0 * sqrt (1 / 4)"
    "\<bar>3 / 2 - 1 / 2 * 3\<bar> \<le> 0 * \<bar>1 / 2 * 3 :: real\<bar>"
    "\<bar>1 / 2 - 3 / 2 / 3\<bar> \<le> 0 * \<bar>3 / 2 / 3 :: real\<bar>"
    by (simp_all add: r)
  note t = getAllParms_radius_ratio [where A = exact_arith and G = 1 and silent = False
      and d = "[''deltaF'' \<mapsto> Num (1 / 4), ''Rstar'' \<mapsto> Num 3, ''deltaFErr'' \<mapsto> Num 0]"
      and dF = "1 / 4" and Rs = 3 and e = "Num 0" and u = 0 and s = "1 / 2" and p = "3 / 2"
      and q = "1 / 2", OF _ _ _ _ _ _ s e(1) p e(2) q e(3)]
  have "snd (getAllParms exact_arith 1 False
            [''deltaF'' \<mapsto> Num (1 / 4), ''Rstar'' \<mapsto> Num 3, ''deltaFErr'' \<mapsto> Num 0]) ''Rp2Rs''
       = Some (Num (1 / 2))
     \<and> \<bar>1 / 2 - sqrt (1 / 4)\<bar> \<le> ((1 + 0) ^ 3 - 1) * sqrt (1 / 4)"
    by (rule t) simp_all
  then show ?thesis using s p q by (simp add: r)
qed

text \<open>
  The claim as the specification words it (Rp2Rs equals \<open>sqrt deltaF\<close> for every
  \<open>Rstar > 0\<close>) fails on every platform in two ways: for \<open>deltaF = 4\<close> and
  \<open>Rstar = 2\<^sup>1\<^sup>0\<^sup>2\<^sup>3\<close> the product overflows and Rp2Rs is inf; for
  \<open>deltaF = 2\<^sup>-\<^sup>1\<^sup>0\<^sup>0\<^sup>0\<close> and \<open>Rstar = 2\<^sup>-\<^sup>6\<^sup>0\<^sup>0\<close> the product underflows and Rp2Rs is 0,
  while \<open>sqrt deltaF\<close> is positive.
\<close>

theorem getAllParms_radius_ratio_counterexample:
  "\<forall>A G silent.
     snd (getAllParms A G silent
            [''deltaF'' \<mapsto> Num 4, ''Rstar'' \<mapsto> Num (2 ^ 1023), ''deltaFErr'' \<mapsto> Num 0]) ''Rp2Rs''
       = Some PInf
     \<and> snd (getAllParms A G silent
            [''deltaF'' \<mapsto> Num (1 / 2 ^ 1000), ''Rstar'' \<mapsto> Num (1 / 2 ^ 600),
             ''deltaFErr'' \<mapsto> Num 0]) ''Rp2Rs''
       = Some (Num 0)
     \<and> 0 < sqrt (1 / 2 ^ 1000)"
proof (intro allI conjI)
  fix A G silent
  have o: "fl A (2 * 2 ^ 1023) = PInf" by (rule fl_overflow) simp
  have "fst (calcRplanet A (Num 4) (Num (2 ^ 1023)) (Num 0)) = PInf"
    unfolding calcRplanet_def Let_def fst_conv using o by simp
  then show "snd (getAllParms A G silent
            [''deltaF'' \<mapsto> Num 4, ''Rstar'' \<mapsto> Num (2 ^ 1023), ''deltaFErr'' \<mapsto> Num 0]) ''Rp2Rs''
       = Some PInf"
    by (subst getAllParms_Rp2Rs [where dF = "Num 4" and Rs = "Num (2 ^ 1023)" and e = "Num 0"])
      simp_all
  have r: "sqrt (1 / 2 ^ 1000) = 1 / 2 ^ 500"
    by (rule real_sqrt_unique) (simp_all add: power2_eq_square power_add [symmetric] power_divide)
  have e: "fl A (1 / 2 ^ 500) = Num (1 / 2 ^ 500)"
    using fl_representable [OF representableI [of 1 "- 500"], of A] by (simp add: power_int_minus field_simps)
  have "\<bar>1 / 2 ^ 500 * (1 / 2 ^ 600) :: real\<bar> \<le> 1 / 2 ^ 1075"
    by (simp add: power_add [symmetric] field_simps)
  then have u: "fl A (1 / 2 ^ 500 * (1 / 2 ^ 600)) = Num 0" by (rule fl_underflow)
  have "fst (calcRplanet A (Num (1 / 2 ^ 1000)) (Num (1 / 2 ^ 600)) (Num 0)) = Num 0"
    unfolding calcRplanet_def Let_def fst_conv np_sqrt.simps r using e u by simp
  then show "snd (getAllParms A G silent
            [''deltaF'' \<mapsto> Num (1 / 2 ^ 1000), ''Rstar'' \<mapsto> Num (1 / 2 ^ 600),
             ''deltaFErr'' \<mapsto> Num 0]) ''Rp2Rs''
       = Some (Num 0)"
    by (subst getAllParms_Rp2Rs [where dF = "Num (1 / 2 ^ 1000)" and Rs = "Num (1 / 2 ^ 600)"
          and e = "Num 0"]) simp_all
  show "0 < sqrt (1 / 2 ^ 1000)" by simp
qed


end
